theory Spec2Isabelle
  imports Complex_Main "HOL-Library.Product_Lexorder"
begin

section \<open>The persistent store (hok/cache\_manager.py)\<close>

text \<open>
  The store is an SQLite file with the tables \<open>api_cache\<close> and \<open>param_pool\<close>
  (the table \<open>key_value_store\<close> is created but no method touches it).
  Clock readings \<open>time.time()\<close> are floats; they are idealised as reals and handed
  to every operation as an argument, one argument per call of \<open>time.time()\<close> in
  the source. Python's \<open>int(x)\<close> on a float truncates towards zero.
  Failures of the database itself (I/O errors, a locked file) are outside the model.
\<close>

definition CACHE_TTL_SECONDS :: int where
  "CACHE_TTL_SECONDS = 3000"

definition PARAM_REUSE_COOLDOWN_SECONDS :: int where
  "PARAM_REUSE_COOLDOWN_SECONDS = 3600"

definition py_int :: "real \<Rightarrow> int" where
  "py_int x = (if 0 \<le> x then \<lfloor>x\<rfloor> else \<lceil>x\<rceil>)"

text \<open>
  A row of \<open>param_pool\<close>. The column \<open>param\<close> is the primary key. SQLite integers
  are 64 bit; the counters stay far below that, so they are unbounded here.
\<close>

record param_row =
  param :: string
  use_count :: int
  last_used_timestamp :: int

text \<open>
  The database. \<open>api_cache\<close> has the primary key \<open>key\<close> and is only written by
  \<open>REPLACE INTO\<close>, so it is a map from keys to (value, timestamp). \<open>param_pool\<close> is
  the list of its rows in insertion (rowid) order. The type \<open>'b\<close> is the serialised
  payload that \<open>orjson.dumps\<close> produces.
\<close>

record 'b db =
  api_cache :: "string \<rightharpoonup> ('b \<times> int)"
  param_pool :: "param_row list"

definition initialize :: "'b db" where
  "initialize = \<lparr>api_cache = Map.empty, param_pool = []\<rparr>"

subsection \<open>Response cache\<close>

text \<open>
  \<open>CacheManager.get\<close> (and \<open>CacheManager.set\<close> below; \<open>set\<close> is a constant of HOL,
  so both carry the suffix \<open>_cache\<close>): the codec \<open>orjson.loads\<close> is a parameter. A
  non-empty row tuple is always truthy, so \<open>if row\<close> is the test that a row was found.
\<close>

definition get_cache :: "('b \<Rightarrow> 'v) \<Rightarrow> 'b db \<Rightarrow> real \<Rightarrow> string \<Rightarrow> 'v option" where
  "get_cache loads d now key =
     (case api_cache d key of
        None \<Rightarrow> None
      | Some (val, timestamp) \<Rightarrow>
          if now - of_int timestamp < of_int CACHE_TTL_SECONDS then Some (loads val)
          else None)"

text \<open>\<open>CacheManager.set\<close>: \<open>REPLACE INTO\<close> overwrites the row of the key.\<close>

definition set_cache :: "('v \<Rightarrow> 'b) \<Rightarrow> 'b db \<Rightarrow> real \<Rightarrow> string \<Rightarrow> 'v \<Rightarrow> 'b db" where
  "set_cache dumps d now key v = d\<lparr>api_cache := (api_cache d)(key \<mapsto> (dumps v, py_int now))\<rparr>"

subsection \<open>Credential pool\<close>

text \<open>
  \<open>INSERT OR IGNORE ... VALUES (?, 0, 0)\<close> for one parameter: a row whose primary key
  is already in the table is skipped, a new one is appended.
\<close>

definition insert_or_ignore :: "param_row list \<Rightarrow> string \<Rightarrow> param_row list" where
  "insert_or_ignore rows p =
     (if p \<in> set (map param rows) then rows
      else rows @ [\<lparr>param = p, use_count = 0, last_used_timestamp = 0\<rparr>])"

text \<open>\<open>CacheManager.add_new_params\<close>: \<open>executemany\<close> runs the insert once per list element, in order.\<close>

definition add_new_params :: "string list \<Rightarrow> 'b db \<Rightarrow> 'b db" where
  "add_new_params params d = d\<lparr>param_pool := foldl insert_or_ignore (param_pool d) params\<rparr>"

text \<open>\<open>CacheManager.get_available_param_uses_count\<close>: \<open>SELECT COUNT(*) ... WHERE use_count < 2\<close>.\<close>

definition get_available_param_uses_count :: "'b db \<Rightarrow> int" where
  "get_available_param_uses_count d = int (length (filter (\<lambda>r. use_count r < 2) (param_pool d)))"

text \<open>
  \<open>SELECT param FROM param_pool WHERE cond ORDER BY key ASC LIMIT 1\<close> followed by
  \<open>fetchone\<close>: the first row of the filtered table sorted by the key. SQL leaves the
  order of rows with equal keys open; the stable sort keeps them in rowid order.
\<close>

definition select_first :: "(param_row \<Rightarrow> 'k::linorder) \<Rightarrow> (param_row \<Rightarrow> bool) \<Rightarrow> param_row list \<Rightarrow> param_row option" where
  "select_first key cond rows =
     (case sort_key key (filter cond rows) of [] \<Rightarrow> None | r # _ \<Rightarrow> Some r)"

text \<open>\<open>UPDATE param_pool SET use_count = use_count + 1, last_used_timestamp = ? WHERE param = ?\<close>.\<close>

definition mark_used :: "int \<Rightarrow> string \<Rightarrow> param_row list \<Rightarrow> param_row list" where
  "mark_used ts p rows =
     map (\<lambda>r. if param r = p then r\<lparr>use_count := use_count r + 1, last_used_timestamp := ts\<rparr> else r) rows"

text \<open>
  \<open>CacheManager.get_and_update_available_param\<close>, one transaction. \<open>t_sel\<close> is the
  clock reading of the second query (read only when the first query finds nothing),
  \<open>t_upd\<close> the one of the update. The result is the returned parameter and the
  database after commit or rollback.
\<close>

definition get_and_update_available_param :: "real \<Rightarrow> real \<Rightarrow> 'b db \<Rightarrow> string option \<times> 'b db" where
  "get_and_update_available_param t_sel t_upd d =
     (let row1 = select_first (\<lambda>r. (use_count r, last_used_timestamp r)) (\<lambda>r. use_count r < 2) (param_pool d);
          row = (case row1 of
                   Some r \<Rightarrow> Some r
                 | None \<Rightarrow>
                     (let cooldown_time = py_int t_sel - PARAM_REUSE_COOLDOWN_SECONDS
                      in select_first last_used_timestamp
                           (\<lambda>r. use_count r \<ge> 2 \<and> last_used_timestamp r < cooldown_time) (param_pool d)))
      in case row of
           Some r \<Rightarrow> (Some (param r), d\<lparr>param_pool := mark_used (py_int t_upd) (param r) (param_pool d)\<rparr>)
         | None \<Rightarrow> (None, d))"

subsection \<open>Sequences of store operations\<close>

text \<open>
  The row of a parameter, found by its primary key, and the public operations of
  \<open>CacheManager\<close> as a datatype, so that a property can speak about every sequence
  of calls. \<open>get\<close> and \<open>get_available_param_uses_count\<close> only read.
\<close>

definition find_row :: "param_row list \<Rightarrow> string \<Rightarrow> param_row option" where
  "find_row rows p = find (\<lambda>r. param r = p) rows"

datatype 'v store_op =
    Get string real
  | Set string 'v real
  | AddNewParams "string list"
  | CountAvailable
  | GetAndUpdate real real

fun apply_op :: "('v \<Rightarrow> 'b) \<Rightarrow> 'b db \<Rightarrow> 'v store_op \<Rightarrow> 'b db" where
  "apply_op dumps d (Get key now) = d"
| "apply_op dumps d (Set key v now) = set_cache dumps d now key v"
| "apply_op dumps d (AddNewParams params) = add_new_params params d"
| "apply_op dumps d CountAvailable = d"
| "apply_op dumps d (GetAndUpdate t_sel t_upd) = snd (get_and_update_available_param t_sel t_upd d)"

definition run_ops :: "('v \<Rightarrow> 'b) \<Rightarrow> 'v store_op list \<Rightarrow> 'b db \<Rightarrow> 'b db" where
  "run_ops dumps ops d = foldl (apply_op dumps) d ops"

section \<open>The security manager (hok/camp\_security.py)\<close>

text \<open>
  The manager talks to a daemon process over pipes. What the outside world does during
  one call (what a read returns, whether a write fails, whether a stream ever reaches its
  end) is an argument of the model, one record per call; what the manager does to the
  outside is appended to a trace. The model is one task running alone: the two
  \<open>asyncio\<close> locks and cancellation are not part of it. Exceptions are values; only
  their class matters to the \<open>except\<close> clauses, so messages are left out.
  \<open>JSONDecodeError\<close> and \<open>UnicodeDecodeError\<close> are subclasses of \<open>ValueError\<close>;
  \<open>BrokenPipeError\<close>, \<open>ConnectionResetError\<close> and \<open>ProcessLookupError\<close> are subclasses
  of \<open>OSError\<close> and of neither \<open>RuntimeError\<close> nor \<open>ValueError\<close>.
\<close>

datatype exn =
    BrokenPipeError
  | ConnectionResetError
  | RuntimeError
  | ValueError
  | ProcessLookupError
  | OtherError

datatype action =
    Spawn nat
  | WriteLine string
  | ReadLine
  | ReadStderr
  | Kill nat
  | Wait nat
  | Sleep nat
  | CreateTask

text \<open>
  How a call ends: it returns, it raises, it waits for ever on an \<open>await\<close>
  (\<open>Blocked\<close>), or it is still inside its loop when the script of the outside world is
  used up (\<open>Looping\<close>). In a sequence of awaited calls everything but a return ends the
  sequence.
\<close>

datatype 'a outcome = Returned 'a | Raised exn | Blocked | Looping

definition and_then ::
    "'a outcome \<times> 'w \<Rightarrow> ('a \<Rightarrow> 'w \<Rightarrow> 'c outcome \<times> 'w) \<Rightarrow> 'c outcome \<times> 'w" where
  "and_then m f =
     (case m of
        (Returned x, w) \<Rightarrow> f x w
      | (Raised e, w) \<Rightarrow> (Raised e, w)
      | (Blocked, w) \<Rightarrow> (Blocked, w)
      | (Looping, w) \<Rightarrow> (Looping, w))"

text \<open>A process handle; \<open>returncode\<close> is \<open>None\<close> while the process runs.\<close>

record process =
  pid :: nat
  returncode :: "int option"

text \<open>
  An \<open>asyncio.Task\<close>, as far as \<open>done()\<close> shows it, and the fields of the manager.
  The batch multiplier \<open>cluster_size\<close> is a positive integer, a natural number here.
\<close>

record task =
  is_done :: bool

record manager =
  proc :: "process option"
  executable_path :: "string option"
  warmup_task :: "task option"
  is_warming_up :: bool
  cluster_size :: nat
  pool_target :: int
  low_water_mark :: int

text \<open>The two singletons and the trace of what was done to the outside.\<close>

record 'b world =
  cm :: "'b db"
  sm :: manager
  trace :: "action list"

definition emit :: "action list \<Rightarrow> 'b world \<Rightarrow> 'b world" where
  "emit as w = w\<lparr>trace := trace w @ as\<rparr>"

definition set_proc :: "process option \<Rightarrow> 'b world \<Rightarrow> 'b world" where
  "set_proc p w = w\<lparr>sm := (sm w)\<lparr>proc := p\<rparr>\<rparr>"

text \<open>\<open>self._proc and self._proc.returncode is None\<close>.\<close>

definition running :: "manager \<Rightarrow> bool" where
  "running m = (case proc m of None \<Rightarrow> False | Some p \<Rightarrow> returncode p = None)"

text \<open>
  A decoded text (\<open>str\<close>) is a list of code points. \<open>str.strip()\<close> removes from both
  ends the characters for which \<open>str.isspace()\<close> holds: the ASCII ones and the Unicode
  ones (U+0085, U+00A0, U+1680, U+2000 to U+200A, U+2028, U+2029, U+202F, U+205F, U+3000).
\<close>

definition py_isspace :: "nat \<Rightarrow> bool" where
  "py_isspace c =
     (c \<in> set [0x09, 0x0A, 0x0B, 0x0C, 0x0D, 0x1C, 0x1D, 0x1E, 0x1F, 0x20, 0x85, 0xA0, 0x1680] \<or>
      (0x2000 \<le> c \<and> c \<le> 0x200A) \<or>
      c \<in> set [0x2028, 0x2029, 0x202F, 0x205F, 0x3000])"

definition py_strip :: "nat list \<Rightarrow> nat list" where
  "py_strip s = rev (dropWhile py_isspace (rev (dropWhile py_isspace s)))"

text \<open>The code points of the readiness token \<open>READY\<close>.\<close>

definition READY :: "nat list" where
  "READY = [0x52, 0x45, 0x41, 0x44, 0x59]"

text \<open>Decimal digits of a natural number, for the f-string of the command line.\<close>

fun str_nat :: "nat \<Rightarrow> string" where
  "str_nat n = (if n < 10 then [char_of (48 + n)] else str_nat (n div 10) @ [char_of (48 + n mod 10)])"

declare str_nat.simps [simp del]

text \<open>
  What \<open>await self._proc.stderr.read()\<close> does: the call reads to the end of the stream,
  so it returns only once the daemon has closed its error stream (or has exited). The
  bytes read are then decoded for the message of the exception, which fails for bytes
  that are not UTF-8.
\<close>

datatype stderr_read = NoEOF | Utf8 | NotUtf8

text \<open>
  What the outside does during one call of \<open>_start_daemon\<close>: the result of
  \<open>ensure_executable_exists\<close>, of spawning the process, the first line of its output as
  \<open>decode()\<close> gives it (\<open>None\<close> for bytes that are not UTF-8) and the read of its error
  stream.
\<close>

record start_io =
  ensure_executable :: "exn + string"
  spawn :: "exn + nat"
  ready_signal :: "nat list option"
  start_stderr :: stderr_read

text \<open>
  \<open>SecurityManager._start_daemon\<close>. \<open>ensure_executable_exists\<close> is called outside the
  \<open>try\<close>, so its exception leaves as it is; everything raised inside the \<open>try\<close>
  clears the handle and becomes a \<open>RuntimeError\<close>. A line that does not decode raises
  before the error stream is read. A \<open>Path\<close> object is always truthy.
\<close>

definition start_daemon :: "start_io \<Rightarrow> 'b world \<Rightarrow> unit outcome \<times> 'b world" where
  "start_daemon io w =
     (if running (sm w) then (Returned (), w)
      else
        (case (case executable_path (sm w) of Some path \<Rightarrow> Inr path | None \<Rightarrow> ensure_executable io) of
           Inl e \<Rightarrow> (Raised e, w)
         | Inr path \<Rightarrow>
             (let w1 = w\<lparr>sm := (sm w)\<lparr>executable_path := Some path\<rparr>\<rparr>
              in case spawn io of
                   Inl e \<Rightarrow> (Raised RuntimeError, set_proc None w1)
                 | Inr new_pid \<Rightarrow>
                     (let w2 = emit [Spawn new_pid, ReadLine]
                                 (set_proc (Some \<lparr>pid = new_pid, returncode = None\<rparr>) w1)
                      in case ready_signal io of
                           None \<Rightarrow> (Raised RuntimeError, set_proc None w2)
                         | Some line \<Rightarrow>
                             if py_strip line \<noteq> READY
                             then (case start_stderr io of
                                     NoEOF \<Rightarrow> (Blocked, emit [ReadStderr] w2)
                                   | _ \<Rightarrow> (Raised RuntimeError, set_proc None (emit [ReadStderr] w2)))
                             else (Returned (), w2)))))"

text \<open>
  What the outside does during one call of \<open>_fetch_new_params_from_daemon\<close>: the daemon
  start if one is needed, the write and its \<open>drain()\<close>, the line read from the output
  (bytes), the read of the error stream, and whether \<open>kill()\<close> finds the process gone.
  The reads of the output are taken to return.
\<close>

record fetch_io =
  start :: start_io
  drain :: "exn option"
  output_line :: string
  stderr :: stderr_read
  kill_lookup_error :: bool

text \<open>
  The \<open>except\<close> block of \<open>_fetch_new_params_from_daemon\<close>: \<open>kill()\<close> raises
  \<open>ProcessLookupError\<close> when the process is already gone, and then nothing is awaited.
\<close>

definition teardown :: "fetch_io \<Rightarrow> 'b world \<Rightarrow> 'b world" where
  "teardown io w =
     set_proc None
       (case proc (sm w) of
          None \<Rightarrow> w
        | Some p \<Rightarrow> if kill_lookup_error io then w else emit [Kill (pid p), Wait (pid p)] w)"

definition caught_by_fetch :: "exn \<Rightarrow> bool" where
  "caught_by_fetch e = (e \<in> set [BrokenPipeError, ConnectionResetError, RuntimeError, ValueError])"

text \<open>
  The \<open>try\<close> statement of \<open>_fetch_new_params_from_daemon\<close>, run once the daemon
  is there. \<open>loads\<close> is \<open>orjson.loads\<close> on bytes that start with \<open>[\<close>: a list of
  strings, or \<open>None\<close> for a \<open>JSONDecodeError\<close>. On an empty line the error stream is
  read to its end before anything is raised: while that read does not return, neither
  the exception nor the \<open>except\<close> block happens.
\<close>

definition request ::
    "(string \<Rightarrow> string list option) \<Rightarrow> fetch_io \<Rightarrow> 'b world \<Rightarrow> string list outcome \<times> 'b world" where
  "request loads io w1 =
     (let w2 = emit [WriteLine (''cluster '' @ str_nat (cluster_size (sm w1)) @ [CHR 0x0A])] w1
      in case drain io of
           Some e \<Rightarrow> (Raised e, if caught_by_fetch e then teardown io w2 else w2)
         | None \<Rightarrow>
             (let w3 = emit [ReadLine] w2
              in if output_line io = []
                 then (case stderr io of
                         NoEOF \<Rightarrow> (Blocked, emit [ReadStderr] w3)
                       | Utf8 \<Rightarrow> (Raised RuntimeError, teardown io (emit [ReadStderr] w3))
                       | NotUtf8 \<Rightarrow> (Raised ValueError, teardown io (emit [ReadStderr] w3)))
                 else if CHR ''['' \<notin> set (output_line io) then (Raised ValueError, teardown io w3)
                 else (case loads (dropWhile (\<lambda>c. c \<noteq> CHR ''['') (output_line io)) of
                         None \<Rightarrow> (Raised ValueError, teardown io w3)
                       | Some new_params \<Rightarrow> (Returned new_params, w3))))"

text \<open>\<open>SecurityManager._fetch_new_params_from_daemon\<close>.\<close>

definition fetch_new_params_from_daemon ::
    "(string \<Rightarrow> string list option) \<Rightarrow> fetch_io \<Rightarrow> 'b world \<Rightarrow> string list outcome \<times> 'b world" where
  "fetch_new_params_from_daemon loads io w =
     and_then (if \<not> running (sm w) then start_daemon (start io) w else (Returned (), w))
       (\<lambda>_ w1. request loads io w1)"

text \<open>
  The progress bar of the library \<open>rich\<close>, as far as the loop reads it: a task is
  finished once an update finds \<open>completed \<ge> total\<close>; adding a task does not mark it.
\<close>

record progress =
  completed :: int
  total :: int
  finished :: bool

definition add_task :: "int \<Rightarrow> int \<Rightarrow> progress" where
  "add_task tot done0 = \<lparr>completed = done0, total = tot, finished = False\<rparr>"

definition advance :: "int \<Rightarrow> progress \<Rightarrow> progress" where
  "advance n p = p\<lparr>completed := completed p + n,
                   finished := (finished p \<or> total p \<le> completed p + n)\<rparr>"

text \<open>
  The \<open>while not progress.finished\<close> loop of \<open>warm_up_pool\<close>; each iteration consumes
  one record of the script. The \<open>except\<close> clause names \<open>RuntimeError\<close> and
  \<open>ValueError\<close> only.
\<close>

fun warm_up_loop ::
    "(string \<Rightarrow> string list option) \<Rightarrow> fetch_io list \<Rightarrow> progress \<Rightarrow> 'b world \<Rightarrow> unit outcome \<times> 'b world" where
  "warm_up_loop loads [] p w = (if finished p then (Returned (), w) else (Looping, w))"
| "warm_up_loop loads (io # ios) p w =
     (if finished p then (Returned (), w)
      else
        (case fetch_new_params_from_daemon loads io w of
           (Returned new_params, w1) \<Rightarrow>
             if new_params \<noteq> []
             then warm_up_loop loads ios (advance (int (length new_params) * 2) p)
                    (w1\<lparr>cm := add_new_params new_params (cm w1)\<rparr>)
             else warm_up_loop loads ios p w1
         | (Raised e, w1) \<Rightarrow>
             if e = RuntimeError \<or> e = ValueError
             then warm_up_loop loads ios p (emit [Sleep 5] w1)
             else (Raised e, w1)
         | (Blocked, w1) \<Rightarrow> (Blocked, w1)
         | (Looping, w1) \<Rightarrow> (Looping, w1)))"

definition set_warming :: "bool \<Rightarrow> 'b world \<Rightarrow> 'b world" where
  "set_warming b w = w\<lparr>sm := (sm w)\<lparr>is_warming_up := b\<rparr>\<rparr>"

text \<open>
  \<open>SecurityManager.warm_up_pool\<close>; the \<open>finally\<close> clause runs when the loop is left by
  its end or by an exception.
\<close>

definition warm_up_pool ::
    "(string \<Rightarrow> string list option) \<Rightarrow> fetch_io list \<Rightarrow> 'b world \<Rightarrow> unit outcome \<times> 'b world" where
  "warm_up_pool loads ios w =
     (if is_warming_up (sm w) then (Returned (), w)
      else
        (let w1 = set_warming True w;
             initial_uses = get_available_param_uses_count (cm w1);
             p = add_task (pool_target (sm w1)) (min initial_uses (pool_target (sm w1)))
         in case warm_up_loop loads ios p w1 of
              (Looping, w2) \<Rightarrow> (Looping, w2)
            | (Blocked, w2) \<Rightarrow> (Blocked, w2)
            | (r, w2) \<Rightarrow> (r, set_warming False w2)))"

text \<open>\<open>SecurityManager.trigger_warmup\<close>: the task is created, not run.\<close>

definition trigger_warmup :: "'b world \<Rightarrow> 'b world" where
  "trigger_warmup w =
     (if (case warmup_task (sm w) of None \<Rightarrow> False | Some t \<Rightarrow> \<not> is_done t) then w
      else emit [CreateTask] (w\<lparr>sm := (sm w)\<lparr>warmup_task := Some \<lparr>is_done = False\<rparr>\<rparr>\<rparr>))"

text \<open>Python's \<open>not param\<close> for an optional string: \<open>None\<close> and the empty string are falsy.\<close>

definition not_param :: "string option \<Rightarrow> bool" where
  "not_param p = (case p of None \<Rightarrow> True | Some s \<Rightarrow> s = [])"

record headers =
  specialencodeparam :: string
  traceparent :: string

text \<open>
  What the outside does during one call of \<open>get_headers\<close>: the clock readings of the
  two allocations, the daemon during the emergency fetch, and the random hex strings.
\<close>

record headers_io =
  alloc1 :: "real \<times> real"
  fetch :: fetch_io
  alloc2 :: "real \<times> real"
  trace_id :: string
  span_id :: string

definition generate_traceparent :: "headers_io \<Rightarrow> string" where
  "generate_traceparent io = ''00-'' @ trace_id io @ ''-'' @ span_id io @ ''-01''"

text \<open>The tail of \<open>get_headers\<close>, from the count of available uses on.\<close>

definition finish_headers :: "headers_io \<Rightarrow> string \<Rightarrow> 'b world \<Rightarrow> headers outcome \<times> 'b world" where
  "finish_headers io p w =
     (let available_uses = get_available_param_uses_count (cm w);
          w1 = (if available_uses < low_water_mark (sm w) \<and> \<not> is_warming_up (sm w)
                then (if running (sm w) then trigger_warmup w else w)
                else w)
      in (Returned \<lparr>specialencodeparam = p, traceparent = generate_traceparent io\<rparr>, w1))"

text \<open>
  \<open>SecurityManager.get_headers\<close>. The variable \<open>param\<close> is read (\<open>the\<close>) only behind
  the test \<open>not param\<close>, where it holds a non-empty string.
\<close>

definition get_headers ::
    "(string \<Rightarrow> string list option) \<Rightarrow> headers_io \<Rightarrow> 'b world \<Rightarrow> headers outcome \<times> 'b world" where
  "get_headers loads io w =
     (case get_and_update_available_param (fst (alloc1 io)) (snd (alloc1 io)) (cm w) of
        (param1, d1) \<Rightarrow>
          (let w1 = w\<lparr>cm := d1\<rparr>
           in if not_param param1
              then
                and_then (fetch_new_params_from_daemon loads (fetch io) w1)
                  (\<lambda>new_params w2.
                     if new_params = [] then (Raised RuntimeError, w2)
                     else
                       (case get_and_update_available_param (fst (alloc2 io)) (snd (alloc2 io))
                               (add_new_params new_params (cm w2)) of
                          (param2, d3) \<Rightarrow>
                            if not_param param2 then (Raised RuntimeError, w2\<lparr>cm := d3\<rparr>)
                            else finish_headers io (the param2) (w2\<lparr>cm := d3\<rparr>)))
              else finish_headers io (the param1) w1))"

subsection \<open>Reading a run\<close>

text \<open>
  Counting in a trace the command lines written to the daemon and the tasks created, a
  warm-up task that exists and is not done, and names for the steps of \<open>get_headers\<close>:
  its first allocation, the emergency fetch on the state after it, and the second
  allocation after the returned parameters were inserted.
\<close>

definition batch_requests :: "action list \<Rightarrow> nat" where
  "batch_requests as = length (filter (\<lambda>a. case a of WriteLine _ \<Rightarrow> True | _ \<Rightarrow> False) as)"

definition pending :: "manager \<Rightarrow> bool" where
  "pending m = (case warmup_task m of None \<Rightarrow> False | Some t \<Rightarrow> \<not> is_done t)"

definition first_allocation :: "headers_io \<Rightarrow> 'b world \<Rightarrow> string option \<times> 'b db" where
  "first_allocation io w = get_and_update_available_param (fst (alloc1 io)) (snd (alloc1 io)) (cm w)"

definition emergency_fetch ::
    "(string \<Rightarrow> string list option) \<Rightarrow> headers_io \<Rightarrow> 'b world \<Rightarrow> string list outcome \<times> 'b world" where
  "emergency_fetch loads io w =
     fetch_new_params_from_daemon loads (fetch io) (w\<lparr>cm := snd (first_allocation io w)\<rparr>)"

definition second_allocation :: "headers_io \<Rightarrow> 'b world \<Rightarrow> string list \<Rightarrow> string option \<times> 'b db" where
  "second_allocation io w new_params =
     get_and_update_available_param (fst (alloc2 io)) (snd (alloc2 io))
       (add_new_params new_params (snd (first_allocation io w)))"

definition tasks_created :: "action list \<Rightarrow> nat" where
  "tasks_created as = length (filter (\<lambda>a. a = CreateTask) as)"

subsection \<open>A JSON parser for the examples\<close>

text \<open>
  The parser is a parameter of the model. For concrete runs, \<open>loads_string_array\<close>
  reads the JSON texts that are an array of strings without escape sequences (ASCII,
  no backslash, no control character), with JSON whitespace between the tokens, and
  gives their strings, as \<open>orjson.loads\<close> does; a text that is not JSON is rejected
  (\<open>None\<close>). It is applied to such texts only: JSON of another shape is outside its
  domain. The text is cut at the quotation marks: the pieces at odd positions are the
  strings, the others must be the brackets and commas.
\<close>

fun split_quote :: "string \<Rightarrow> string list" where
  "split_quote [] = [[]]"
| "split_quote (c # cs) =
     (if c = CHR 0x22 then [] # split_quote cs
      else (case split_quote cs of [] \<Rightarrow> [[c]] | p # ps \<Rightarrow> (c # p) # ps))"

definition json_ws :: "char \<Rightarrow> bool" where
  "json_ws c = (c \<in> set [CHR '' '', CHR 0x09, CHR 0x0A, CHR 0x0D])"

definition squeeze :: "string \<Rightarrow> string" where
  "squeeze s = filter (\<lambda>c. \<not> json_ws c) s"

definition plain_string :: "string \<Rightarrow> bool" where
  "plain_string s = list_all (\<lambda>c. c \<noteq> CHR 0x5C \<and> (32::nat) \<le> of_char c \<and> (of_char c :: nat) < 128) s"

fun string_items :: "string list \<Rightarrow> string list option" where
  "string_items [s, closing] =
     (if plain_string s \<and> squeeze closing = '']'' then Some [s] else None)"
| "string_items (s # sep # rest) =
     (if plain_string s \<and> squeeze sep = '','' then map_option ((#) s) (string_items rest) else None)"
| "string_items _ = None"

definition loads_string_array :: "string \<Rightarrow> string list option" where
  "loads_string_array bytes =
     (case split_quote bytes of
        [] \<Rightarrow> None
      | [only] \<Rightarrow> if squeeze only = ''[]'' then Some [] else None
      | opening # rest \<Rightarrow> if squeeze opening = ''['' then string_items rest else None)"

section \<open>Example states\<close>

text \<open>Concrete pools on which the properties below are instantiated.\<close>

definition pool_xba :: "string db" where
  "pool_xba = \<lparr>api_cache = Map.empty,
      param_pool = [\<lparr>param = ''X'', use_count = 5, last_used_timestamp = 0\<rparr>,
                    \<lparr>param = ''B'', use_count = 1, last_used_timestamp = 90\<rparr>,
                    \<lparr>param = ''A'', use_count = 0, last_used_timestamp = 0\<rparr>]\<rparr>"

definition pool_boundary :: "string db" where
  "pool_boundary = \<lparr>api_cache = Map.empty,
      param_pool = [\<lparr>param = ''C'', use_count = 2, last_used_timestamp = 6400\<rparr>]\<rparr>"

definition pool_cooling :: "string db" where
  "pool_cooling = \<lparr>api_cache = Map.empty,
      param_pool = [\<lparr>param = ''E'', use_count = 2, last_used_timestamp = 9000\<rparr>,
                    \<lparr>param = ''F'', use_count = 4, last_used_timestamp = 2000\<rparr>,
                    \<lparr>param = ''G'', use_count = 2, last_used_timestamp = 1000\<rparr>]\<rparr>"

definition pool_resting :: "string db" where
  "pool_resting = \<lparr>api_cache = Map.empty,
      param_pool = [\<lparr>param = ''D'', use_count = 2, last_used_timestamp = 9990\<rparr>,
                    \<lparr>param = ''H'', use_count = 3, last_used_timestamp = 6400\<rparr>]\<rparr>"

definition ops_example :: "string store_op list" where
  "ops_example = [GetAndUpdate 100 100, AddNewParams [''A'', ''K''], Set ''k'' ''v'' 100,
                  GetAndUpdate 200 200, CountAvailable, Get ''k'' 300, GetAndUpdate 300 300,
                  GetAndUpdate 400 400]"

text \<open>
  A manager with a running daemon, and scripts of the outside world. The daemon answers
  a batch request with the line \<open>log ["p1","p2"]\<close> and a newline.
\<close>

definition manager0 :: manager where
  "manager0 = \<lparr>proc = Some \<lparr>pid = 7, returncode = None\<rparr>, executable_path = Some ''bin/camp-security'',
               warmup_task = None, is_warming_up = False,
               cluster_size = 2, pool_target = 100, low_water_mark = 20\<rparr>"

definition world0 :: "string world" where
  "world0 = \<lparr>cm = initialize, sm = manager0, trace = []\<rparr>"

definition start_ok :: start_io where
  "start_ok = \<lparr>ensure_executable = Inr ''bin/camp-security'', spawn = Inr 8,
               ready_signal = Some [0x52, 0x45, 0x41, 0x44, 0x59, 0x0A], start_stderr = NoEOF\<rparr>"

definition batch_line :: string where
  "batch_line = ''log ['' @ [CHR 0x22] @ ''p1'' @ [CHR 0x22] @ '','' @ [CHR 0x22] @ ''p2'' @ [CHR 0x22] @
                '']'' @ [CHR 0x0A]"

definition io_closed :: fetch_io where
  "io_closed = \<lparr>start = start_ok, drain = None, output_line = [], stderr = Utf8, kill_lookup_error = False\<rparr>"

definition io_stderr_open :: fetch_io where
  "io_stderr_open = \<lparr>start = start_ok, drain = None, output_line = [], stderr = NoEOF, kill_lookup_error = False\<rparr>"

definition io_broken_pipe :: fetch_io where
  "io_broken_pipe = \<lparr>start = start_ok, drain = Some BrokenPipeError, output_line = [], stderr = Utf8,
                     kill_lookup_error = False\<rparr>"

definition io_batch :: fetch_io where
  "io_batch = \<lparr>start = start_ok, drain = None, output_line = batch_line, stderr = NoEOF,
               kill_lookup_error = False\<rparr>"

definition hio :: headers_io where
  "hio = \<lparr>alloc1 = (100, 100), fetch = io_batch, alloc2 = (101, 101),
          trace_id = ''0af7651916cd43dd8448eb211c80319c'', span_id = ''b7ad6b7169203331''\<rparr>"


definition world_low :: "string world" where
  "world_low = \<lparr>cm = \<lparr>api_cache = Map.empty,
                       param_pool = [\<lparr>param = ''A'', use_count = 0, last_used_timestamp = 0\<rparr>]\<rparr>,
                sm = manager0, trace = []\<rparr>"

definition world_idle :: "string world" where
  "world_idle = \<lparr>cm = \<lparr>api_cache = Map.empty,
                        param_pool = [\<lparr>param = ''A'', use_count = 0, last_used_timestamp = 0\<rparr>]\<rparr>,
                 sm = manager0\<lparr>proc := None\<rparr>, trace = []\<rparr>"

section \<open>Properties of the store\<close>

subsection \<open>Selecting the first row of an ordered query\<close>

lemma select_first_None:
  "select_first key cond rows = None \<longleftrightarrow> (\<forall>r\<in>set rows. \<not> cond r)"
proof -
  have "sort_key key (filter cond rows) = [] \<longleftrightarrow> filter cond rows = []"
    by (metis length_sort length_0_conv)
  then show ?thesis
    by (auto simp: select_first_def filter_empty_conv split: list.splits)
qed

lemma select_first_Some:
  assumes "select_first key cond rows = Some r"
  shows "r \<in> set rows \<and> cond r \<and> (\<forall>r'\<in>set rows. cond r' \<longrightarrow> key r \<le> key r')"
proof -
  from assms obtain rest where s: "sort_key key (filter cond rows) = r # rest"
    by (auto simp: select_first_def split: list.splits)
  have "set (sort_key key (filter cond rows)) = set (filter cond rows)" by simp
  with s have mem: "set (filter cond rows) = insert r (set rest)" by simp
  have "sorted (map key (sort_key key (filter cond rows)))" by (rule sorted_sort_key)
  with s have le: "\<forall>x\<in>set rest. key r \<le> key x" by simp
  from mem have "r \<in> set (filter cond rows)" by simp
  moreover have "\<forall>r'\<in>set rows. cond r' \<longrightarrow> key r \<le> key r'"
  proof (intro ballI impI)
    fix r' assume "r' \<in> set rows" "cond r'"
    then have "r' \<in> insert r (set rest)" using mem by auto
    then show "key r \<le> key r'" using le by auto
  qed
  ultimately show ?thesis by simp
qed

lemma tier1_hit:
  assumes "select_first (\<lambda>r. (use_count r, last_used_timestamp r)) (\<lambda>r. use_count r < 2) (param_pool d) = Some r"
  shows "get_and_update_available_param t_sel t_upd d =
           (Some (param r), d\<lparr>param_pool := mark_used (py_int t_upd) (param r) (param_pool d)\<rparr>)"
  using assms by (simp add: get_and_update_available_param_def)

lemma tier2_eq:
  assumes "\<forall>r\<in>set (param_pool d). \<not> use_count r < 2"
  shows "get_and_update_available_param t_sel t_upd d =
     (case select_first last_used_timestamp
              (\<lambda>r. use_count r \<ge> 2 \<and> last_used_timestamp r < py_int t_sel - PARAM_REUSE_COOLDOWN_SECONDS) (param_pool d) of
        Some r \<Rightarrow> (Some (param r), d\<lparr>param_pool := mark_used (py_int t_upd) (param r) (param_pool d)\<rparr>)
      | None \<Rightarrow> (None, d))"
proof -
  have "select_first (\<lambda>r. (use_count r, last_used_timestamp r)) (\<lambda>r. use_count r < 2) (param_pool d) = None"
    using assms by (simp add: select_first_None)
  then show ?thesis by (simp add: get_and_update_available_param_def)
qed

lemma mark_used_distinct:
  assumes "distinct (map param rows)" "r \<in> set rows"
  shows "mark_used ts (param r) rows =
         map (\<lambda>x. if x = r then r\<lparr>use_count := use_count r + 1, last_used_timestamp := ts\<rparr> else x) rows"
proof -
  have "\<forall>x\<in>set rows. (param x = param r) = (x = r)"
    using assms by (auto simp: distinct_map inj_on_def)
  then show ?thesis unfolding mark_used_def by (auto intro: map_cong)
qed

lemma tier1_selection:
  fixes d :: "'b db"
  assumes fresh: "\<exists>r\<in>set (param_pool d). use_count r < 2"
    and pk: "distinct (map param (param_pool d))"
  shows "\<exists>r\<in>set (param_pool d).
           use_count r < 2 \<and>
           (\<forall>r'\<in>set (param_pool d). use_count r' < 2 \<longrightarrow>
              (use_count r, last_used_timestamp r) \<le> (use_count r', last_used_timestamp r')) \<and>
           (\<forall>r'\<in>set (param_pool d). 2 \<le> use_count r' \<longrightarrow> r' \<noteq> r) \<and>
           get_and_update_available_param t_sel t_upd d =
             (Some (param r),
              d\<lparr>param_pool := map (\<lambda>x. if x = r then r\<lparr>use_count := use_count r + 1,
                      last_used_timestamp := py_int t_upd\<rparr> else x) (param_pool d)\<rparr>)"
proof -
  let ?key = "\<lambda>r. (use_count r, last_used_timestamp r)"
  let ?cond = "\<lambda>r. use_count r < 2"
  from fresh have "select_first ?key ?cond (param_pool d) \<noteq> None"
    by (simp add: select_first_None)
  then obtain r where sel: "select_first ?key ?cond (param_pool d) = Some r" by auto
  from select_first_Some[OF sel]
  have mem: "r \<in> set (param_pool d)" and fr: "use_count r < 2"
    and least: "\<forall>r'\<in>set (param_pool d). use_count r' < 2 \<longrightarrow> ?key r \<le> ?key r'"
    by auto
  have res: "get_and_update_available_param t_sel t_upd d =
             (Some (param r),
              d\<lparr>param_pool := map (\<lambda>x. if x = r then r\<lparr>use_count := use_count r + 1,
                      last_used_timestamp := py_int t_upd\<rparr> else x) (param_pool d)\<rparr>)"
    using tier1_hit[OF sel] mark_used_distinct[OF pk mem] by simp
  have "\<forall>r'\<in>set (param_pool d). 2 \<le> use_count r' \<longrightarrow> r' \<noteq> r" using fr by auto
  with mem fr least res show ?thesis by blast
qed

lemma tier2_selection:
  fixes d :: "'b db"
  assumes nofresh: "\<forall>r\<in>set (param_pool d). 2 \<le> use_count r"
    and pk: "distinct (map param (param_pool d))"
    and elig: "\<exists>r\<in>set (param_pool d). last_used_timestamp r < py_int t_sel - PARAM_REUSE_COOLDOWN_SECONDS"
  shows "\<exists>r\<in>set (param_pool d).
           PARAM_REUSE_COOLDOWN_SECONDS < py_int t_sel - last_used_timestamp r \<and>
           (\<forall>r'\<in>set (param_pool d).
              PARAM_REUSE_COOLDOWN_SECONDS < py_int t_sel - last_used_timestamp r' \<longrightarrow>
              last_used_timestamp r \<le> last_used_timestamp r') \<and>
           2 < use_count r + 1 \<and>
           get_and_update_available_param t_sel t_upd d =
             (Some (param r),
              d\<lparr>param_pool := map (\<lambda>x. if x = r then r\<lparr>use_count := use_count r + 1,
                      last_used_timestamp := py_int t_upd\<rparr> else x) (param_pool d)\<rparr>)"
proof -
  let ?cond = "\<lambda>r. use_count r \<ge> 2 \<and> last_used_timestamp r < py_int t_sel - PARAM_REUSE_COOLDOWN_SECONDS"
  from nofresh have nf: "\<forall>r\<in>set (param_pool d). \<not> use_count r < 2" by auto
  from elig nofresh have "select_first last_used_timestamp ?cond (param_pool d) \<noteq> None"
    by (auto simp: select_first_None)
  then obtain r where sel: "select_first last_used_timestamp ?cond (param_pool d) = Some r" by auto
  from select_first_Some[OF sel]
  have mem: "r \<in> set (param_pool d)" and c: "?cond r"
    and least: "\<forall>r'\<in>set (param_pool d). ?cond r' \<longrightarrow> last_used_timestamp r \<le> last_used_timestamp r'"
    by auto
  have res: "get_and_update_available_param t_sel t_upd d =
             (Some (param r),
              d\<lparr>param_pool := map (\<lambda>x. if x = r then r\<lparr>use_count := use_count r + 1,
                      last_used_timestamp := py_int t_upd\<rparr> else x) (param_pool d)\<rparr>)"
    using tier2_eq[OF nf, of t_sel t_upd] sel mark_used_distinct[OF pk mem] by simp
  have l2: "\<forall>r'\<in>set (param_pool d).
              PARAM_REUSE_COOLDOWN_SECONDS < py_int t_sel - last_used_timestamp r' \<longrightarrow>
              last_used_timestamp r \<le> last_used_timestamp r'"
    using least nofresh by auto
  from c have "PARAM_REUSE_COOLDOWN_SECONDS < py_int t_sel - last_used_timestamp r" "2 < use_count r + 1"
    by auto
  with mem l2 res show ?thesis by blast
qed

lemma no_row_found:
  fixes d :: "'b db"
  assumes "\<forall>r\<in>set (param_pool d). 2 \<le> use_count r \<and>
             py_int t_sel - PARAM_REUSE_COOLDOWN_SECONDS \<le> last_used_timestamp r"
  shows "get_and_update_available_param t_sel t_upd d = (None, d)"
proof -
  have nf: "\<forall>r\<in>set (param_pool d). \<not> use_count r < 2" using assms by auto
  have "select_first last_used_timestamp
          (\<lambda>r. use_count r \<ge> 2 \<and> last_used_timestamp r < py_int t_sel - PARAM_REUSE_COOLDOWN_SECONDS)
          (param_pool d) = None"
    using assms by (auto simp: select_first_None)
  with tier2_eq[OF nf, of t_sel t_upd] show ?thesis by simp
qed

lemma absent_unchanged:
  "fst (get_and_update_available_param t_sel t_upd d) = None \<Longrightarrow>
   snd (get_and_update_available_param t_sel t_upd d) = d"
  by (auto simp: get_and_update_available_param_def Let_def split: option.splits)

lemma absent_iff:
  "fst (get_and_update_available_param t_sel t_upd d) = None \<longleftrightarrow>
   (\<forall>r\<in>set (param_pool d). 2 \<le> use_count r \<and>
             py_int t_sel - PARAM_REUSE_COOLDOWN_SECONDS \<le> last_used_timestamp r)"
proof
  assume "fst (get_and_update_available_param t_sel t_upd d) = None"
  then have a: "select_first (\<lambda>r. (use_count r, last_used_timestamp r)) (\<lambda>r. use_count r < 2) (param_pool d) = None"
    and b: "select_first last_used_timestamp
          (\<lambda>r. use_count r \<ge> 2 \<and> last_used_timestamp r < py_int t_sel - PARAM_REUSE_COOLDOWN_SECONDS)
          (param_pool d) = None"
    by (auto simp: get_and_update_available_param_def Let_def split: option.splits)
  from a have "\<forall>r\<in>set (param_pool d). 2 \<le> use_count r"
    by (auto simp: select_first_None not_less)
  moreover from b have "\<forall>r\<in>set (param_pool d). 2 \<le> use_count r \<longrightarrow>
       py_int t_sel - PARAM_REUSE_COOLDOWN_SECONDS \<le> last_used_timestamp r"
    by (auto simp: select_first_None not_less)
  ultimately show "\<forall>r\<in>set (param_pool d). 2 \<le> use_count r \<and>
             py_int t_sel - PARAM_REUSE_COOLDOWN_SECONDS \<le> last_used_timestamp r"
    by blast
next
  assume "\<forall>r\<in>set (param_pool d). 2 \<le> use_count r \<and>
             py_int t_sel - PARAM_REUSE_COOLDOWN_SECONDS \<le> last_used_timestamp r"
  then show "fst (get_and_update_available_param t_sel t_upd d) = None"
    by (simp add: no_row_found)
qed

lemma returned_row:
  assumes "fst (get_and_update_available_param t_sel t_upd d) = Some p"
  shows "\<exists>r\<in>set (param_pool d). param r = p \<and>
           (use_count r < 2 \<or> PARAM_REUSE_COOLDOWN_SECONDS < py_int t_sel - last_used_timestamp r)"
  using assms
  by (auto simp: get_and_update_available_param_def Let_def split: option.splits
           dest!: select_first_Some)

lemma scenario_C:
  "get_and_update_available_param (of_int t) (of_int t)
     \<lparr>api_cache = c, param_pool = [\<lparr>param = ''C'', use_count = 2, last_used_timestamp = t - 7200\<rparr>]\<rparr> =
   (Some ''C'', \<lparr>api_cache = c, param_pool = [\<lparr>param = ''C'', use_count = 3, last_used_timestamp = t\<rparr>]\<rparr>)"
  by (simp add: get_and_update_available_param_def select_first_def py_int_def mark_used_def
        PARAM_REUSE_COOLDOWN_SECONDS_def)

lemma scenario_D:
  "get_and_update_available_param (of_int t) t_upd
     \<lparr>api_cache = c, param_pool = [\<lparr>param = ''D'', use_count = 2, last_used_timestamp = t - 10\<rparr>]\<rparr> =
   (None, \<lparr>api_cache = c, param_pool = [\<lparr>param = ''D'', use_count = 2, last_used_timestamp = t - 10\<rparr>]\<rparr>)"
  by (simp add: get_and_update_available_param_def select_first_def py_int_def mark_used_def
        PARAM_REUSE_COOLDOWN_SECONDS_def)

lemma py_int_of_int: "py_int (of_int t) = t"
  by (simp add: py_int_def)

lemma find_row_append:
  "find_row (xs @ ys) p = (case find_row xs p of Some r \<Rightarrow> Some r | None \<Rightarrow> find_row ys p)"
  by (induction xs) (auto simp: find_row_def)

lemma find_row_None: "find_row rows p = None \<longleftrightarrow> p \<notin> set (map param rows)"
  by (auto simp: find_row_def find_None_iff)

lemma find_row_Some_param: "find_row rows p = Some r \<Longrightarrow> param r = p \<and> r \<in> set rows"
  by (auto simp: find_row_def find_Some_iff)

lemma find_row_insert_keep:
  "find_row rows p = Some r \<Longrightarrow> find_row (insert_or_ignore rows q) p = Some r"
  by (simp add: insert_or_ignore_def find_row_append)

lemma find_row_insert_new:
  "find_row rows p = None \<Longrightarrow>
   find_row (insert_or_ignore rows p) p = Some \<lparr>param = p, use_count = 0, last_used_timestamp = 0\<rparr>"
proof -
  assume n: "find_row rows p = None"
  then have "p \<notin> set (map param rows)" by (simp add: find_row_None)
  then have "insert_or_ignore rows p = rows @ [\<lparr>param = p, use_count = 0, last_used_timestamp = 0\<rparr>]"
    by (simp add: insert_or_ignore_def)
  moreover have "find_row [\<lparr>param = p, use_count = 0, last_used_timestamp = 0\<rparr>] p =
      Some \<lparr>param = p, use_count = 0, last_used_timestamp = 0\<rparr>"
    by (simp add: find_row_def)
  ultimately show ?thesis using n by (simp add: find_row_append)
qed

lemma find_row_foldl_keep:
  "find_row rows p = Some r \<Longrightarrow> find_row (foldl insert_or_ignore rows ps) p = Some r"
  by (induction ps arbitrary: rows) (auto simp: find_row_insert_keep)

lemma find_row_insert_other:
  "q \<noteq> p \<Longrightarrow> find_row (insert_or_ignore rows q) p = find_row rows p"
proof -
  assume "q \<noteq> p"
  then have "find_row [\<lparr>param = q, use_count = 0, last_used_timestamp = 0\<rparr>] p = None"
    by (simp add: find_row_def)
  then show ?thesis
    by (simp add: insert_or_ignore_def find_row_append split: option.splits)
qed

lemma find_row_foldl_new:
  "find_row rows p = None \<Longrightarrow> p \<in> set ps \<Longrightarrow>
   find_row (foldl insert_or_ignore rows ps) p = Some \<lparr>param = p, use_count = 0, last_used_timestamp = 0\<rparr>"
proof (induction ps arbitrary: rows)
  case Nil
  then show ?case by simp
next
  case (Cons q ps)
  show ?case
  proof (cases "q = p")
    case True
    with Cons.prems(1) have "find_row (insert_or_ignore rows q) p =
        Some \<lparr>param = p, use_count = 0, last_used_timestamp = 0\<rparr>"
      by (simp add: find_row_insert_new)
    then show ?thesis by (simp add: find_row_foldl_keep)
  next
    case False
    with Cons.prems have "find_row (insert_or_ignore rows q) p = None" "p \<in> set ps"
      by (auto simp: find_row_insert_other)
    then show ?thesis using Cons.IH by simp
  qed
qed

lemma find_row_mark_used:
  "find_row (mark_used ts q rows) p =
     map_option (\<lambda>r. if p = q then r\<lparr>use_count := use_count r + 1, last_used_timestamp := ts\<rparr> else r)
       (find_row rows p)"
  by (induction rows) (auto simp: find_row_def mark_used_def)

lemma find_row_allocate:
  assumes "find_row (param_pool d) p = Some r"
  shows "find_row (param_pool (snd (get_and_update_available_param t_sel t_upd d))) p =
     Some (if fst (get_and_update_available_param t_sel t_upd d) = Some p
           then r\<lparr>use_count := use_count r + 1, last_used_timestamp := py_int t_upd\<rparr> else r)"
  using assms
  by (auto simp: get_and_update_available_param_def Let_def find_row_mark_used split: option.splits)

lemma apply_op_monotone:
  assumes "find_row (param_pool d) p = Some r"
  shows "\<exists>r'. find_row (param_pool (apply_op dumps d op)) p = Some r' \<and> use_count r \<le> use_count r'"
proof (cases op)
  case (AddNewParams ps)
  then show ?thesis using assms by (simp add: add_new_params_def find_row_foldl_keep)
next
  case (GetAndUpdate t_sel t_upd)
  then show ?thesis using find_row_allocate[OF assms, of t_sel t_upd] by auto
qed (use assms in \<open>auto simp: set_cache_def\<close>)

lemma run_ops_monotone:
  "find_row (param_pool d) p = Some r \<Longrightarrow>
   \<exists>r'. find_row (param_pool (run_ops dumps ops d)) p = Some r' \<and> use_count r \<le> use_count r'"
proof (induction ops arbitrary: d r)
  case Nil
  then show ?case by (simp add: run_ops_def)
next
  case (Cons op ops)
  from apply_op_monotone[OF Cons.prems, of dumps op]
  obtain r1 where r1: "find_row (param_pool (apply_op dumps d op)) p = Some r1" "use_count r \<le> use_count r1"
    by blast
  from Cons.IH[OF r1(1)] obtain r' where
    "find_row (param_pool (run_ops dumps ops (apply_op dumps d op))) p = Some r'" "use_count r1 \<le> use_count r'"
    by blast
  with r1(2) show ?case by (auto simp: run_ops_def)
qed

lemma insert_or_ignore_params:
  "param ` set (insert_or_ignore rows p) = insert p (param ` set rows)"
  by (auto simp: insert_or_ignore_def)

lemma foldl_insert_params:
  "param ` set (foldl insert_or_ignore rows ps) = param ` set rows \<union> set ps"
proof (induction ps arbitrary: rows)
  case Nil
  then show ?case by simp
next
  case (Cons q ps)
  have "param ` set (foldl insert_or_ignore (insert_or_ignore rows q) ps) =
        insert q (param ` set rows) \<union> set ps"
    by (simp only: Cons.IH insert_or_ignore_params)
  then show ?case by auto
qed

lemma foldl_insert_present:
  "set ps \<subseteq> set (map param rows) \<Longrightarrow> foldl insert_or_ignore rows ps = rows"
  by (induction ps arbitrary: rows) (auto simp: insert_or_ignore_def)

lemma insert_or_ignore_distinct:
  "distinct (map param rows) \<Longrightarrow> distinct (map param (insert_or_ignore rows p))"
  by (auto simp: insert_or_ignore_def)

lemma foldl_insert_distinct:
  "distinct (map param rows) \<Longrightarrow> distinct (map param (foldl insert_or_ignore rows ps))"
  by (induction ps arbitrary: rows) (auto simp: insert_or_ignore_distinct)

lemma foldl_insert_extends:
  "\<exists>new. foldl insert_or_ignore rows ps = rows @ new \<and>
         (\<forall>r\<in>set new. use_count r = 0 \<and> last_used_timestamp r = 0 \<and>
                      param r \<in> set ps \<and> param r \<notin> set (map param rows))"
proof (induction ps arbitrary: rows)
  case Nil
  then show ?case by simp
next
  case (Cons q ps)
  show ?case
  proof (cases "q \<in> set (map param rows)")
    case True
    then have "insert_or_ignore rows q = rows" by (simp add: insert_or_ignore_def)
    with Cons.IH[of rows] show ?thesis by auto
  next
    case False
    let ?n = "\<lparr>param = q, use_count = 0, last_used_timestamp = 0\<rparr>"
    from False have e: "insert_or_ignore rows q = rows @ [?n]" by (simp add: insert_or_ignore_def)
    from Cons.IH[of "rows @ [?n]"] obtain new where
      n: "foldl insert_or_ignore (rows @ [?n]) ps = (rows @ [?n]) @ new"
      and p: "\<forall>r\<in>set new. use_count r = 0 \<and> last_used_timestamp r = 0 \<and>
                      param r \<in> set ps \<and> param r \<notin> set (map param (rows @ [?n]))"
      by blast
    have "foldl insert_or_ignore rows (q # ps) = rows @ (?n # new)" using e n by simp
    moreover have "\<forall>r\<in>set (?n # new). use_count r = 0 \<and> last_used_timestamp r = 0 \<and>
                      param r \<in> set (q # ps) \<and> param r \<notin> set (map param rows)"
      using p False by auto
    ultimately show ?thesis by blast
  qed
qed

lemma one_row_per_key:
  "distinct (map param rows) \<Longrightarrow> p \<in> set (map param rows) \<Longrightarrow>
   length (filter (\<lambda>r. param r = p) rows) = 1"
proof (induction rows)
  case Nil
  then show ?case by simp
next
  case (Cons a rows)
  show ?case
  proof (cases "param a = p")
    case True
    with Cons.prems(1) have "p \<notin> param ` set rows" by simp
    then have "\<forall>r\<in>set rows. param r \<noteq> p" by blast
    then have "filter (\<lambda>r. param r = p) rows = []" by (simp add: filter_empty_conv)
    with True show ?thesis by simp
  next
    case False
    with Cons show ?thesis by auto
  qed
qed

lemma add_twice:
  "add_new_params ps (add_new_params ps d) = add_new_params ps d"
proof -
  have "set ps \<subseteq> set (map param (foldl insert_or_ignore (param_pool d) ps))"
    by (simp only: set_map foldl_insert_params) blast
  then show ?thesis by (simp add: add_new_params_def foldl_insert_present)
qed

lemma cache_roundtrip:
  "get_cache loads (set_cache dumps d t0 k v) t1 k =
     (if t1 - of_int (py_int t0) < of_int CACHE_TTL_SECONDS then Some (loads (dumps v)) else None)"
  by (simp add: get_cache_def set_cache_def)

lemma cache_missing: "api_cache d k = None \<Longrightarrow> get_cache loads d now k = None"
  by (simp add: get_cache_def)

subsection \<open>The allocation policy\<close>

lemma scenario_AB:
  "get_and_update_available_param (of_int t) (of_int t)
     \<lparr>api_cache = c, param_pool = [\<lparr>param = ''A'', use_count = 0, last_used_timestamp = 0\<rparr>,
                                  \<lparr>param = ''B'', use_count = 1, last_used_timestamp = t - 10\<rparr>]\<rparr> =
   (Some ''A'', \<lparr>api_cache = c, param_pool = [\<lparr>param = ''A'', use_count = 1, last_used_timestamp = t\<rparr>,
                                  \<lparr>param = ''B'', use_count = 1, last_used_timestamp = t - 10\<rparr>]\<rparr>)"
  by (simp add: get_and_update_available_param_def select_first_def py_int_def mark_used_def less_eq_prod_def)

lemma scenario_BA:
  "get_and_update_available_param (of_int t) (of_int t)
     \<lparr>api_cache = c, param_pool = [\<lparr>param = ''B'', use_count = 1, last_used_timestamp = t - 10\<rparr>,
                                  \<lparr>param = ''A'', use_count = 0, last_used_timestamp = 0\<rparr>]\<rparr> =
   (Some ''A'', \<lparr>api_cache = c, param_pool = [\<lparr>param = ''B'', use_count = 1, last_used_timestamp = t - 10\<rparr>,
                                  \<lparr>param = ''A'', use_count = 1, last_used_timestamp = t\<rparr>]\<rparr>)"
  by (simp add: get_and_update_available_param_def select_first_def py_int_def mark_used_def less_eq_prod_def)

text \<open>
  Claim C1. Whenever the pool holds a fresh row (use count below 2) the allocation returns
  a fresh row, the least one in the order (use count, last use), whatever the position of
  the rows in the table and whatever exhausted rows exist, cooled down or not; that row
  alone is updated, its use count by one and its timestamp to the clock reading. In the
  scenario with A = (0, 0) and B = (1, t - 10), in either insertion order, A is returned
  and becomes (1, t).
\<close>

theorem allocate_prefers_fresh:
  "((\<exists>r\<in>set (param_pool d). use_count r < 2) \<and> distinct (map param (param_pool d)) \<longrightarrow>
     (\<exists>r\<in>set (param_pool d).
           use_count r < 2 \<and>
           (\<forall>r'\<in>set (param_pool d). use_count r' < 2 \<longrightarrow>
              (use_count r, last_used_timestamp r) \<le> (use_count r', last_used_timestamp r')) \<and>
           (\<forall>r'\<in>set (param_pool d). 2 \<le> use_count r' \<longrightarrow> r' \<noteq> r) \<and>
           get_and_update_available_param t_sel t_upd d =
             (Some (param r),
              d\<lparr>param_pool := map (\<lambda>x. if x = r then r\<lparr>use_count := use_count r + 1,
                      last_used_timestamp := py_int t_upd\<rparr> else x) (param_pool d)\<rparr>))) \<and>
   get_and_update_available_param (of_int t) (of_int t)
     \<lparr>api_cache = c, param_pool = [\<lparr>param = ''A'', use_count = 0, last_used_timestamp = 0\<rparr>,
                                  \<lparr>param = ''B'', use_count = 1, last_used_timestamp = t - 10\<rparr>]\<rparr> =
   (Some ''A'', \<lparr>api_cache = c, param_pool = [\<lparr>param = ''A'', use_count = 1, last_used_timestamp = t\<rparr>,
                                  \<lparr>param = ''B'', use_count = 1, last_used_timestamp = t - 10\<rparr>]\<rparr>) \<and>
   get_and_update_available_param (of_int t) (of_int t)
     \<lparr>api_cache = c, param_pool = [\<lparr>param = ''B'', use_count = 1, last_used_timestamp = t - 10\<rparr>,
                                  \<lparr>param = ''A'', use_count = 0, last_used_timestamp = 0\<rparr>]\<rparr> =
   (Some ''A'', \<lparr>api_cache = c, param_pool = [\<lparr>param = ''B'', use_count = 1, last_used_timestamp = t - 10\<rparr>,
                                  \<lparr>param = ''A'', use_count = 1, last_used_timestamp = t\<rparr>]\<rparr>)"
  using tier1_selection[of d t_sel t_upd] scenario_AB[of t c] scenario_BA[of t c] by blast

theorem allocate_prefers_fresh_witness:
  "(\<exists>r\<in>set (param_pool pool_xba). use_count r < 2) \<and>
   distinct (map param (param_pool pool_xba)) \<and>
   list_ex (\<lambda>r. 2 \<le> use_count r \<and>
              PARAM_REUSE_COOLDOWN_SECONDS < py_int 10000 - last_used_timestamp r) (param_pool pool_xba) \<and>
   fst (get_and_update_available_param 10000 10000 pool_xba) = Some ''A''"
proof -
  have h: "(\<exists>r\<in>set (param_pool pool_xba). use_count r < 2) \<and>
           distinct (map param (param_pool pool_xba))"
    by (simp add: pool_xba_def)
  have x: "list_ex (\<lambda>r. 2 \<le> use_count r \<and>
              PARAM_REUSE_COOLDOWN_SECONDS < py_int 10000 - last_used_timestamp r) (param_pool pool_xba)"
    by (simp add: pool_xba_def PARAM_REUSE_COOLDOWN_SECONDS_def py_int_def)
  from allocate_prefers_fresh[of pool_xba 10000 10000, THEN conjunct1, rule_format, OF h]
  obtain r where r: "r \<in> set (param_pool pool_xba)" "use_count r < 2"
      "\<forall>r'\<in>set (param_pool pool_xba). use_count r' < 2 \<longrightarrow>
              (use_count r, last_used_timestamp r) \<le> (use_count r', last_used_timestamp r')"
      "fst (get_and_update_available_param 10000 10000 pool_xba) = Some (param r)"
    by auto
  from r(3) have "(use_count r, last_used_timestamp r) \<le> (0, 0)"
    by (simp add: pool_xba_def)
  with r(1,2) have "param r = ''A''"
    by (auto simp: pool_xba_def less_eq_prod_def)
  with r(4) h x show ?thesis by simp
qed

lemma never_before_cooldown:
  assumes pk: "distinct (map param (param_pool d))"
    and ret: "fst (get_and_update_available_param t_sel t_upd d) = Some (param r)"
    and mem: "r \<in> set (param_pool d)" and ex: "2 \<le> use_count r"
  shows "PARAM_REUSE_COOLDOWN_SECONDS < py_int t_sel - last_used_timestamp r"
proof -
  from returned_row[OF ret] obtain r' where r': "r' \<in> set (param_pool d)" "param r' = param r"
    "use_count r' < 2 \<or> PARAM_REUSE_COOLDOWN_SECONDS < py_int t_sel - last_used_timestamp r'"
    by blast
  from pk r'(1,2) mem have "r' = r" by (auto simp: distinct_map inj_on_def)
  with r'(3) ex show ?thesis by auto
qed

lemma tier2_returns_iff:
  assumes nofresh: "\<forall>r\<in>set (param_pool d). 2 \<le> use_count r"
  shows "(fst (get_and_update_available_param t_sel t_upd d) \<noteq> None) =
         (\<exists>r\<in>set (param_pool d). PARAM_REUSE_COOLDOWN_SECONDS < py_int t_sel - last_used_timestamp r)"
proof -
  have "(fst (get_and_update_available_param t_sel t_upd d) \<noteq> None) =
        (\<not> (\<forall>r\<in>set (param_pool d). 2 \<le> use_count r \<and>
             py_int t_sel - PARAM_REUSE_COOLDOWN_SECONDS \<le> last_used_timestamp r))"
    by (simp only: absent_iff)
  also have "\<dots> = (\<exists>r\<in>set (param_pool d). \<not> py_int t_sel - PARAM_REUSE_COOLDOWN_SECONDS \<le> last_used_timestamp r)"
    using nofresh by blast
  also have "\<dots> = (\<exists>r\<in>set (param_pool d). PARAM_REUSE_COOLDOWN_SECONDS < py_int t_sel - last_used_timestamp r)"
  proof -
    have h: "\<And>r. (\<not> py_int t_sel - PARAM_REUSE_COOLDOWN_SECONDS \<le> last_used_timestamp r) =
        (PARAM_REUSE_COOLDOWN_SECONDS < py_int t_sel - last_used_timestamp r)"
      by linarith
    show ?thesis by (simp only: h)
  qed
  finally show ?thesis .
qed

text \<open>
  Claim C2, as the code has it. With no fresh row in the pool, the allocation at clock
  reading t returns a row exactly when some row has rested strictly longer than the
  cooldown, \<open>COOLDOWN < t - lastUsedAt\<close>; it is then the eligible row with the
  least timestamp, its use count goes to at least 3 and its timestamp to the clock
  reading of the update. In any pool, an exhausted row that is returned has rested
  strictly longer than the cooldown. In the scenario C = (2, t - 7200) the row C is
  returned and becomes (3, t).
\<close>

theorem allocate_cooldown:
  "((\<forall>r\<in>set (param_pool d). 2 \<le> use_count r) \<and> distinct (map param (param_pool d)) \<longrightarrow>
      ((fst (get_and_update_available_param t_sel t_upd d) \<noteq> None) =
         (\<exists>r\<in>set (param_pool d). PARAM_REUSE_COOLDOWN_SECONDS < py_int t_sel - last_used_timestamp r)) \<and>
      ((\<exists>r\<in>set (param_pool d). PARAM_REUSE_COOLDOWN_SECONDS < py_int t_sel - last_used_timestamp r) \<longrightarrow>
         (\<exists>r\<in>set (param_pool d).
           PARAM_REUSE_COOLDOWN_SECONDS < py_int t_sel - last_used_timestamp r \<and>
           (\<forall>r'\<in>set (param_pool d).
              PARAM_REUSE_COOLDOWN_SECONDS < py_int t_sel - last_used_timestamp r' \<longrightarrow>
              last_used_timestamp r \<le> last_used_timestamp r') \<and>
           2 < use_count r + 1 \<and>
           get_and_update_available_param t_sel t_upd d =
             (Some (param r),
              d\<lparr>param_pool := map (\<lambda>x. if x = r then r\<lparr>use_count := use_count r + 1,
                      last_used_timestamp := py_int t_upd\<rparr> else x) (param_pool d)\<rparr>)))) \<and>
   (distinct (map param (param_pool d)) \<and>
    fst (get_and_update_available_param t_sel t_upd d) = Some (param r0) \<and>
    r0 \<in> set (param_pool d) \<and> 2 \<le> use_count r0 \<longrightarrow>
      PARAM_REUSE_COOLDOWN_SECONDS < py_int t_sel - last_used_timestamp r0) \<and>
   get_and_update_available_param (of_int t) (of_int t)
     \<lparr>api_cache = c, param_pool = [\<lparr>param = ''C'', use_count = 2, last_used_timestamp = t - 7200\<rparr>]\<rparr> =
   (Some ''C'', \<lparr>api_cache = c, param_pool = [\<lparr>param = ''C'', use_count = 3, last_used_timestamp = t\<rparr>]\<rparr>) \<and>
   PARAM_REUSE_COOLDOWN_SECONDS = 3600"
proof (intro conjI impI)
  assume a: "(\<forall>r\<in>set (param_pool d). 2 \<le> use_count r) \<and> distinct (map param (param_pool d))"
  then show "(fst (get_and_update_available_param t_sel t_upd d) \<noteq> None) =
         (\<exists>r\<in>set (param_pool d). PARAM_REUSE_COOLDOWN_SECONDS < py_int t_sel - last_used_timestamp r)"
    using tier2_returns_iff[of d t_sel t_upd] by blast
  assume "\<exists>r\<in>set (param_pool d). PARAM_REUSE_COOLDOWN_SECONDS < py_int t_sel - last_used_timestamp r"
  then obtain r1 where "r1 \<in> set (param_pool d)"
      "PARAM_REUSE_COOLDOWN_SECONDS < py_int t_sel - last_used_timestamp r1" by blast
  then have "r1 \<in> set (param_pool d)"
      "last_used_timestamp r1 < py_int t_sel - PARAM_REUSE_COOLDOWN_SECONDS" by linarith+
  then have "\<exists>r\<in>set (param_pool d). last_used_timestamp r < py_int t_sel - PARAM_REUSE_COOLDOWN_SECONDS"
    by blast
  with a show "\<exists>r\<in>set (param_pool d).
           PARAM_REUSE_COOLDOWN_SECONDS < py_int t_sel - last_used_timestamp r \<and>
           (\<forall>r'\<in>set (param_pool d).
              PARAM_REUSE_COOLDOWN_SECONDS < py_int t_sel - last_used_timestamp r' \<longrightarrow>
              last_used_timestamp r \<le> last_used_timestamp r') \<and>
           2 < use_count r + 1 \<and>
           get_and_update_available_param t_sel t_upd d =
             (Some (param r),
              d\<lparr>param_pool := map (\<lambda>x. if x = r then r\<lparr>use_count := use_count r + 1,
                      last_used_timestamp := py_int t_upd\<rparr> else x) (param_pool d)\<rparr>)"
    using tier2_selection[of d t_sel t_upd] by blast
next
  assume "distinct (map param (param_pool d)) \<and>
    fst (get_and_update_available_param t_sel t_upd d) = Some (param r0) \<and>
    r0 \<in> set (param_pool d) \<and> 2 \<le> use_count r0"
  then show "PARAM_REUSE_COOLDOWN_SECONDS < py_int t_sel - last_used_timestamp r0"
    using never_before_cooldown by blast
next
  show "get_and_update_available_param (of_int t) (of_int t)
     \<lparr>api_cache = c, param_pool = [\<lparr>param = ''C'', use_count = 2, last_used_timestamp = t - 7200\<rparr>]\<rparr> =
   (Some ''C'', \<lparr>api_cache = c, param_pool = [\<lparr>param = ''C'', use_count = 3, last_used_timestamp = t\<rparr>]\<rparr>)"
    by (rule scenario_C)
next
  show "PARAM_REUSE_COOLDOWN_SECONDS = 3600" by (simp add: PARAM_REUSE_COOLDOWN_SECONDS_def)
qed

theorem allocate_cooldown_witness:
  "list_all (\<lambda>r. 2 \<le> use_count r) (param_pool pool_cooling) \<and>
   distinct (map param (param_pool pool_cooling)) \<and>
   list_ex (\<lambda>r. PARAM_REUSE_COOLDOWN_SECONDS < py_int 10000 - last_used_timestamp r) (param_pool pool_cooling) \<and>
   fst (get_and_update_available_param 10000 10000 pool_cooling) = Some ''G''"
proof -
  have h: "(\<forall>r\<in>set (param_pool pool_cooling). 2 \<le> use_count r) \<and>
           distinct (map param (param_pool pool_cooling))"
    by (simp add: pool_cooling_def)
  have e: "\<exists>r\<in>set (param_pool pool_cooling).
             PARAM_REUSE_COOLDOWN_SECONDS < py_int 10000 - last_used_timestamp r"
    by (simp add: pool_cooling_def PARAM_REUSE_COOLDOWN_SECONDS_def py_int_def)
  from allocate_cooldown[of pool_cooling 10000 10000, THEN conjunct1, rule_format, OF h,
      THEN conjunct2, rule_format, OF e]
  obtain r where r: "r \<in> set (param_pool pool_cooling)"
      "\<forall>r'\<in>set (param_pool pool_cooling).
          PARAM_REUSE_COOLDOWN_SECONDS < py_int 10000 - last_used_timestamp r' \<longrightarrow>
          last_used_timestamp r \<le> last_used_timestamp r'"
      "fst (get_and_update_available_param 10000 10000 pool_cooling) = Some (param r)"
    by auto
  from r(2) have "last_used_timestamp r \<le> 1000"
    by (simp add: pool_cooling_def PARAM_REUSE_COOLDOWN_SECONDS_def py_int_def)
  with r(1) have "param r = ''G''" by (auto simp: pool_cooling_def)
  with r(3) h e show ?thesis by (simp add: list_all_iff list_ex_iff)
qed

text \<open>
  The claim C2 as stated in the specification makes a row eligible from
  \<open>t - lastUsedAt \<ge> COOLDOWN\<close> on. At exactly 3600 seconds the query of the code,
  \<open>last_used_timestamp < now - COOLDOWN\<close>, does not select the row.
\<close>

theorem allocate_cooldown_counterexample:
  "fst (get_and_update_available_param 10000 10000 pool_boundary) = None \<and>
   list_all (\<lambda>r. 2 \<le> use_count r) (param_pool pool_boundary) \<and>
   list_ex (\<lambda>r. 10000 - last_used_timestamp r \<ge> PARAM_REUSE_COOLDOWN_SECONDS) (param_pool pool_boundary)"
  by (simp add: pool_boundary_def get_and_update_available_param_def select_first_def py_int_def
        PARAM_REUSE_COOLDOWN_SECONDS_def)

text \<open>
  Claim C3. The allocation returns nothing exactly when every row is exhausted and none
  of them is selected by the cooldown query; the database is then returned as it was
  (the transaction is rolled back, no row is touched). In the scenario D = (2, t - 10)
  nothing is returned.
\<close>

theorem allocate_absent:
  "((\<forall>r\<in>set (param_pool d). 2 \<le> use_count r \<and>
        py_int t_sel - PARAM_REUSE_COOLDOWN_SECONDS \<le> last_used_timestamp r) \<longrightarrow>
      get_and_update_available_param t_sel t_upd d = (None, d)) \<and>
   (fst (get_and_update_available_param t_sel t_upd d) = None \<longrightarrow>
      snd (get_and_update_available_param t_sel t_upd d) = d \<and>
      (\<forall>r\<in>set (param_pool d). 2 \<le> use_count r \<and>
        py_int t_sel - PARAM_REUSE_COOLDOWN_SECONDS \<le> last_used_timestamp r)) \<and>
   get_and_update_available_param (of_int t) t_upd
     \<lparr>api_cache = c, param_pool = [\<lparr>param = ''D'', use_count = 2, last_used_timestamp = t - 10\<rparr>]\<rparr> =
   (None, \<lparr>api_cache = c, param_pool = [\<lparr>param = ''D'', use_count = 2, last_used_timestamp = t - 10\<rparr>]\<rparr>)"
  using no_row_found[of d t_sel t_upd] absent_unchanged[of t_sel t_upd d]
    absent_iff[of t_sel t_upd d] scenario_D[of t t_upd c]
  by blast

theorem allocate_absent_witness:
  "list_all (\<lambda>r. 2 \<le> use_count r \<and>
        py_int 10000 - PARAM_REUSE_COOLDOWN_SECONDS \<le> last_used_timestamp r) (param_pool pool_resting) \<and>
   get_and_update_available_param 10000 10000 pool_resting = (None, pool_resting)"
proof -
  have h: "\<forall>r\<in>set (param_pool pool_resting). 2 \<le> use_count r \<and>
        py_int 10000 - PARAM_REUSE_COOLDOWN_SECONDS \<le> last_used_timestamp r"
    by (simp add: pool_resting_def py_int_def PARAM_REUSE_COOLDOWN_SECONDS_def)
  from allocate_absent[of pool_resting 10000 10000, THEN conjunct1, THEN mp, OF h] h
  show ?thesis by (simp add: list_all_iff)
qed

subsection \<open>Use counts over sequences of operations\<close>

lemma set_cache_pool: "param_pool (set_cache dumps d now key v) = param_pool d"
  by (simp add: set_cache_def)

text \<open>
  Claim C4. The pool starts empty and a row is inserted with use count 0. Over every
  sequence of store operations the use count of an existing row never decreases.
  \<open>add_new_params\<close> and \<open>set\<close> leave an existing row as it is (the reading
  operations return the database unchanged by definition), and one allocation adds
  exactly one to the use count of the row whose parameter it returns and changes no
  other row.
\<close>

theorem use_count_monotone:
  "param_pool (initialize :: 'b db) = [] \<and>
   (find_row (param_pool d) p = None \<and> p \<in> set ps \<longrightarrow>
      find_row (param_pool (add_new_params ps d)) p =
        Some \<lparr>param = p, use_count = 0, last_used_timestamp = 0\<rparr>) \<and>
   (find_row (param_pool d) p = Some r \<longrightarrow>
      (\<exists>r'. find_row (param_pool (run_ops dumps ops d)) p = Some r' \<and> use_count r \<le> use_count r') \<and>
      find_row (param_pool (add_new_params ps d)) p = Some r \<and>
      find_row (param_pool (set_cache dumps d now key v)) p = Some r \<and>
      find_row (param_pool (snd (get_and_update_available_param t_sel t_upd d))) p =
        Some (if fst (get_and_update_available_param t_sel t_upd d) = Some p
              then r\<lparr>use_count := use_count r + 1, last_used_timestamp := py_int t_upd\<rparr> else r))"
proof (intro conjI impI)
  show "param_pool (initialize :: 'b db) = []" by (simp add: initialize_def)
next
  assume "find_row (param_pool d) p = None \<and> p \<in> set ps"
  then show "find_row (param_pool (add_new_params ps d)) p =
        Some \<lparr>param = p, use_count = 0, last_used_timestamp = 0\<rparr>"
    by (simp add: add_new_params_def find_row_foldl_new)
next
  assume a: "find_row (param_pool d) p = Some r"
  show "\<exists>r'. find_row (param_pool (run_ops dumps ops d)) p = Some r' \<and> use_count r \<le> use_count r'"
    by (rule run_ops_monotone[OF a])
  show "find_row (param_pool (add_new_params ps d)) p = Some r"
    using a by (simp add: add_new_params_def find_row_foldl_keep)
  show "find_row (param_pool (set_cache dumps d now key v)) p = Some r"
    using a by (simp add: set_cache_pool)
  show "find_row (param_pool (snd (get_and_update_available_param t_sel t_upd d))) p =
        Some (if fst (get_and_update_available_param t_sel t_upd d) = Some p
              then r\<lparr>use_count := use_count r + 1, last_used_timestamp := py_int t_upd\<rparr> else r)"
    by (rule find_row_allocate[OF a])
qed

theorem use_count_monotone_witness:
  "find_row (param_pool pool_xba) ''A'' = Some \<lparr>param = ''A'', use_count = 0, last_used_timestamp = 0\<rparr> \<and>
   find_row (param_pool (run_ops id ops_example pool_xba)) ''A'' =
      Some \<lparr>param = ''A'', use_count = 2, last_used_timestamp = 400\<rparr> \<and>
   (\<exists>r'. find_row (param_pool (run_ops id ops_example pool_xba)) ''A'' = Some r' \<and> 0 \<le> use_count r')"
proof -
  have a: "find_row (param_pool pool_xba) ''A'' = Some \<lparr>param = ''A'', use_count = 0, last_used_timestamp = 0\<rparr>"
    by (simp add: pool_xba_def find_row_def)
  have b: "find_row (param_pool (run_ops id ops_example pool_xba)) ''A'' =
      Some \<lparr>param = ''A'', use_count = 2, last_used_timestamp = 400\<rparr>"
    by (simp add: pool_xba_def find_row_def run_ops_def ops_example_def
        get_and_update_available_param_def select_first_def py_int_def mark_used_def less_eq_prod_def
        add_new_params_def insert_or_ignore_def set_cache_def PARAM_REUSE_COOLDOWN_SECONDS_def)
  from use_count_monotone[of pool_xba "''A''" "[]" _ id ops_example, THEN conjunct2, THEN conjunct2, rule_format, OF a]
  have "\<exists>r'. find_row (param_pool (run_ops id ops_example pool_xba)) ''A'' = Some r' \<and> 0 \<le> use_count r'"
    by simp
  with a b show ?thesis by blast
qed

subsection \<open>Inserting credentials\<close>

lemma add_new_params_present:
  "set ps \<subseteq> param ` set (param_pool d) \<Longrightarrow> add_new_params ps d = d"
  by (simp add: add_new_params_def foldl_insert_present)

lemma add_new_params_one_row:
  assumes "distinct (map param (param_pool d))" "p \<in> set ps \<union> param ` set (param_pool d)"
  shows "length (filter (\<lambda>r. param r = p) (param_pool (add_new_params ps d))) = 1"
proof -
  have "distinct (map param (param_pool (add_new_params ps d)))"
    using assms(1) by (simp add: add_new_params_def foldl_insert_distinct)
  moreover have "p \<in> set (map param (param_pool (add_new_params ps d)))"
    using assms(2) by (simp add: add_new_params_def foldl_insert_params Un_commute)
  ultimately show ?thesis by (rule one_row_per_key)
qed

lemma mark_used_params: "map param (mark_used ts p rows) = map param rows"
  by (induction rows) (simp_all add: mark_used_def)

lemma allocate_params:
  "map param (param_pool (snd (get_and_update_available_param t_sel t_upd d))) = map param (param_pool d)"
  by (simp add: get_and_update_available_param_def Let_def mark_used_params split: option.splits)

text \<open>
  The primary key of \<open>param_pool\<close> as an invariant: it holds in the empty database and
  every operation keeps it.
\<close>

lemma primary_key_initialize: "distinct (map param (param_pool (initialize :: 'b db)))"
  by (simp add: initialize_def)

lemma primary_key_apply_op:
  "distinct (map param (param_pool d)) \<Longrightarrow> distinct (map param (param_pool (apply_op dumps d op)))"
  by (cases op) (simp_all add: set_cache_pool add_new_params_def foldl_insert_distinct allocate_params)

lemma primary_key_run_ops:
  "distinct (map param (param_pool d)) \<Longrightarrow> distinct (map param (param_pool (run_ops dumps ops d)))"
  unfolding run_ops_def
  by (induction ops arbitrary: d) (simp_all add: primary_key_apply_op)

text \<open>
  Claim C5. Inserting the same list twice is the same as inserting it once, and inserting
  parameters that are all present changes nothing. A present parameter keeps its row
  (use count and timestamp), an absent one gets the row (0, 0), and under the primary-key
  invariant, which the insertion preserves, each parameter has exactly one row afterwards.
\<close>

theorem add_new_params_idempotent:
  "add_new_params ps (add_new_params ps d) = add_new_params ps d \<and>
   api_cache (add_new_params ps d) = api_cache d \<and>
   (set ps \<subseteq> param ` set (param_pool d) \<longrightarrow> add_new_params ps d = d) \<and>
   (find_row (param_pool d) p = Some r \<longrightarrow>
      find_row (param_pool (add_new_params ps d)) p = Some r) \<and>
   (find_row (param_pool d) p = None \<and> p \<in> set ps \<longrightarrow>
      find_row (param_pool (add_new_params ps d)) p =
        Some \<lparr>param = p, use_count = 0, last_used_timestamp = 0\<rparr>) \<and>
   (distinct (map param (param_pool d)) \<longrightarrow>
      distinct (map param (param_pool (add_new_params ps d))) \<and>
      (p \<in> set ps \<union> param ` set (param_pool d) \<longrightarrow>
         length (filter (\<lambda>r. param r = p) (param_pool (add_new_params ps d))) = 1))"
proof (intro conjI impI)
  show "add_new_params ps (add_new_params ps d) = add_new_params ps d" by (rule add_twice)
  show "api_cache (add_new_params ps d) = api_cache d" by (simp add: add_new_params_def)
next
  assume "set ps \<subseteq> param ` set (param_pool d)"
  then show "add_new_params ps d = d" by (rule add_new_params_present)
next
  assume "find_row (param_pool d) p = Some r"
  then show "find_row (param_pool (add_new_params ps d)) p = Some r"
    by (simp add: add_new_params_def find_row_foldl_keep)
next
  assume "find_row (param_pool d) p = None \<and> p \<in> set ps"
  then show "find_row (param_pool (add_new_params ps d)) p =
        Some \<lparr>param = p, use_count = 0, last_used_timestamp = 0\<rparr>"
    by (simp add: add_new_params_def find_row_foldl_new)
next
  assume a: "distinct (map param (param_pool d))"
  then show "distinct (map param (param_pool (add_new_params ps d)))"
    by (simp add: add_new_params_def foldl_insert_distinct)
  assume "p \<in> set ps \<union> param ` set (param_pool d)"
  with a show "length (filter (\<lambda>r. param r = p) (param_pool (add_new_params ps d))) = 1"
    by (rule add_new_params_one_row)
qed

theorem add_new_params_idempotent_witness:
  "find_row (param_pool pool_xba) ''B'' = Some \<lparr>param = ''B'', use_count = 1, last_used_timestamp = 90\<rparr> \<and>
   find_row (param_pool pool_xba) ''K'' = None \<and>
   distinct (map param (param_pool pool_xba)) \<and>
   find_row (param_pool (add_new_params [''B'', ''K'', ''B'', ''K''] pool_xba)) ''B'' =
      Some \<lparr>param = ''B'', use_count = 1, last_used_timestamp = 90\<rparr> \<and>
   find_row (param_pool (add_new_params [''B'', ''K'', ''B'', ''K''] pool_xba)) ''K'' =
      Some \<lparr>param = ''K'', use_count = 0, last_used_timestamp = 0\<rparr> \<and>
   length (filter (\<lambda>r. param r = ''B'') (param_pool (add_new_params [''B'', ''K'', ''B'', ''K''] pool_xba))) = 1 \<and>
   length (filter (\<lambda>r. param r = ''K'') (param_pool (add_new_params [''B'', ''K'', ''B'', ''K''] pool_xba))) = 1"
proof -
  let ?ps = "[''B'', ''K'', ''B'', ''K'']"
  have b: "find_row (param_pool pool_xba) ''B'' = Some \<lparr>param = ''B'', use_count = 1, last_used_timestamp = 90\<rparr>"
    and k: "find_row (param_pool pool_xba) ''K'' = None"
    and dist: "distinct (map param (param_pool pool_xba))"
    by (simp_all add: pool_xba_def find_row_def)
  note thB = add_new_params_idempotent[of ?ps pool_xba "''B''"
      "\<lparr>param = ''B'', use_count = 1, last_used_timestamp = 90\<rparr>"]
  note thK = add_new_params_idempotent[of ?ps pool_xba "''K''"]
  from thB b have b': "find_row (param_pool (add_new_params ?ps pool_xba)) ''B'' =
      Some \<lparr>param = ''B'', use_count = 1, last_used_timestamp = 90\<rparr>" by blast
  from thK k have k': "find_row (param_pool (add_new_params ?ps pool_xba)) ''K'' =
      Some \<lparr>param = ''K'', use_count = 0, last_used_timestamp = 0\<rparr>" by simp
  have "''B'' \<in> set ?ps \<union> param ` set (param_pool pool_xba)" by simp
  with thB dist have b1: "length (filter (\<lambda>r. param r = ''B'') (param_pool (add_new_params ?ps pool_xba))) = 1"
    by blast
  have "''K'' \<in> set ?ps \<union> param ` set (param_pool pool_xba)" by simp
  with thK dist have k1: "length (filter (\<lambda>r. param r = ''K'') (param_pool (add_new_params ?ps pool_xba))) = 1"
    by blast
  from b k dist b' k' b1 k1 show ?thesis by blast
qed

subsection \<open>Response cache\<close>

text \<open>
  Claim C6. \<open>set\<close> stores the serialised value with the truncated clock reading as
  \<open>storedAt\<close>. For a value that the codec round-trips, a later \<open>get\<close> of the key
  returns it while \<open>now - storedAt < 3000\<close>; from 3000 seconds on it returns nothing,
  which is also the answer for a key that has no row.
\<close>

theorem cache_round_trip:
  "api_cache (set_cache dumps d t0 k v) k = Some (dumps v, py_int t0) \<and>
   (loads (dumps v) = v \<and> t1 - of_int (py_int t0) < of_int CACHE_TTL_SECONDS \<longrightarrow>
      get_cache loads (set_cache dumps d t0 k v) t1 k = Some v) \<and>
   (of_int CACHE_TTL_SECONDS \<le> t1 - of_int (py_int t0) \<longrightarrow>
      get_cache loads (set_cache dumps d t0 k v) t1 k = None) \<and>
   (api_cache d k' = None \<longrightarrow> get_cache loads d t1 k' = None) \<and>
   CACHE_TTL_SECONDS = 3000"
  by (simp add: cache_roundtrip cache_missing) (simp add: set_cache_def CACHE_TTL_SECONDS_def)

theorem cache_round_trip_witness:
  "get_cache id (set_cache id (initialize :: string db) 1000.5 ''k'' ''v'') 3999.5 ''k'' = Some ''v'' \<and>
   get_cache id (set_cache id (initialize :: string db) 1000.5 ''k'' ''v'') 4000 ''k'' = None \<and>
   get_cache id (initialize :: string db) 4000 ''k'' = None"
proof -
  have t: "py_int 1000.5 = 1000" by (simp add: py_int_def)
  have a: "id (id ''v'') = ''v'' \<and> (3999.5::real) - of_int (py_int 1000.5) < of_int CACHE_TTL_SECONDS"
    unfolding t by (simp add: CACHE_TTL_SECONDS_def)
  have b: "of_int CACHE_TTL_SECONDS \<le> (4000::real) - of_int (py_int 1000.5)"
    unfolding t by (simp add: CACHE_TTL_SECONDS_def)
  have c: "api_cache (initialize :: string db) ''k'' = None" by (simp add: initialize_def)
  from cache_round_trip[of id "initialize :: string db" "1000.5" "''k''" "''v''" id "3999.5"] a
  have 1: "get_cache id (set_cache id (initialize :: string db) 1000.5 ''k'' ''v'') 3999.5 ''k'' = Some ''v''"
    by blast
  from cache_round_trip[of id "initialize :: string db" "1000.5" "''k''" "''v''" id "4000"] b
  have 2: "get_cache id (set_cache id (initialize :: string db) 1000.5 ''k'' ''v'') 4000 ''k'' = None"
    by blast
  from cache_round_trip[of id "initialize :: string db" "1000.5" "''k''" "''v''" id "4000" "''k''"] c
  have 3: "get_cache id (initialize :: string db) 4000 ''k'' = None"
    by blast
  from 1 2 3 show ?thesis by blast
qed

section \<open>Properties of the security manager\<close>

subsection \<open>Batch requests\<close>

lemma and_then_Returned [simp]: "and_then (Returned x, w) f = f x w"
  by (simp add: and_then_def)

lemma and_then_Raised [simp]: "and_then (Raised e, w) f = (Raised e, w)"
  by (simp add: and_then_def)

lemma and_then_Blocked [simp]: "and_then (Blocked, w) f = (Blocked, w)"
  by (simp add: and_then_def)

lemma and_then_Looping [simp]: "and_then (Looping, w) f = (Looping, w)"
  by (simp add: and_then_def)

lemma start_daemon_cases:
  "(running (sm w) \<and> start_daemon sio w = (Returned (), w)) \<or>
   (\<exists>e. start_daemon sio w = (Raised e, w)) \<or>
   (\<exists>path. start_daemon sio w =
       (Raised RuntimeError, set_proc None (w\<lparr>sm := (sm w)\<lparr>executable_path := Some path\<rparr>\<rparr>))) \<or>
   (\<exists>path n. \<not> running (sm w) \<and> start_daemon sio w =
       (Returned (), emit [Spawn n, ReadLine] (set_proc (Some \<lparr>pid = n, returncode = None\<rparr>)
          (w\<lparr>sm := (sm w)\<lparr>executable_path := Some path\<rparr>\<rparr>)))) \<or>
   (\<exists>path n. start_daemon sio w =
       (Raised RuntimeError, set_proc None (emit [Spawn n, ReadLine] (set_proc (Some \<lparr>pid = n, returncode = None\<rparr>)
          (w\<lparr>sm := (sm w)\<lparr>executable_path := Some path\<rparr>\<rparr>))))) \<or>
   (\<exists>path n. start_daemon sio w =
       (Raised RuntimeError, set_proc None (emit [ReadStderr] (emit [Spawn n, ReadLine]
          (set_proc (Some \<lparr>pid = n, returncode = None\<rparr>)
             (w\<lparr>sm := (sm w)\<lparr>executable_path := Some path\<rparr>\<rparr>)))))) \<or>
   (\<exists>path n. start_daemon sio w =
       (Blocked, emit [ReadStderr] (emit [Spawn n, ReadLine]
          (set_proc (Some \<lparr>pid = n, returncode = None\<rparr>)
             (w\<lparr>sm := (sm w)\<lparr>executable_path := Some path\<rparr>\<rparr>)))))"
proof (cases "running (sm w)")
  case True
  then show ?thesis by (simp add: start_daemon_def)
next
  case nr: False
  show ?thesis
  proof (cases "case executable_path (sm w) of Some path \<Rightarrow> Inr path | None \<Rightarrow> ensure_executable sio")
    case (Inl e)
    with nr have "start_daemon sio w = (Raised e, w)" by (simp add: start_daemon_def)
    then show ?thesis by blast
  next
    case (Inr path)
    let ?w1 = "w\<lparr>sm := (sm w)\<lparr>executable_path := Some path\<rparr>\<rparr>"
    show ?thesis
    proof (cases "spawn sio")
      case (Inl e)
      with nr Inr have "start_daemon sio w = (Raised RuntimeError, set_proc None ?w1)"
        by (simp add: start_daemon_def)
      then show ?thesis by blast
    next
      case sp: (Inr n)
      let ?w2 = "emit [Spawn n, ReadLine] (set_proc (Some \<lparr>pid = n, returncode = None\<rparr>) ?w1)"
      show ?thesis
      proof (cases "ready_signal sio")
        case None
        with sp nr Inr have "start_daemon sio w = (Raised RuntimeError, set_proc None ?w2)"
          by (simp add: start_daemon_def Let_def)
        then show ?thesis by blast
      next
        case (Some line)
        show ?thesis
        proof (cases "py_strip line = READY")
          case True
          with Some sp nr Inr have "start_daemon sio w = (Returned (), ?w2)"
            by (simp add: start_daemon_def Let_def)
          with nr show ?thesis by blast
        next
          case False
          show ?thesis
          proof (cases "start_stderr sio = NoEOF")
            case True
            with False Some sp nr Inr have "start_daemon sio w = (Blocked, emit [ReadStderr] ?w2)"
              by (simp add: start_daemon_def Let_def)
            then show ?thesis by blast
          next
            case ne: False
            with False Some sp nr Inr
            have "start_daemon sio w = (Raised RuntimeError, set_proc None (emit [ReadStderr] ?w2))"
              by (cases "start_stderr sio") (simp_all add: start_daemon_def Let_def)
            then show ?thesis by blast
          qed
        qed
      qed
    qed
  qed
qed

lemma start_daemon_not_looping: "fst (start_daemon sio w) \<noteq> Looping"
  using start_daemon_cases[where sio=sio and w=w] by (elim disjE exE conjE) simp_all

lemma start_daemon_running:
  assumes "fst (start_daemon sio w) = Returned ()"
  shows "running (sm (snd (start_daemon sio w)))"
proof (cases "running (sm w)")
  case True
  then show ?thesis by (simp add: start_daemon_def)
next
  case False
  from start_daemon_cases[where sio=sio and w=w] assms False show ?thesis
    by (elim disjE exE conjE) (simp_all add: running_def emit_def set_proc_def)
qed

lemma teardown_state:
  "proc (sm (teardown io w)) = None \<and> cm (teardown io w) = cm w \<and>
   trace (teardown io w) =
     trace w @ (case proc (sm w) of None \<Rightarrow> []
                | Some p \<Rightarrow> if kill_lookup_error io then [] else [Kill (pid p), Wait (pid p)])"
  by (simp add: teardown_def set_proc_def emit_def split: option.splits)

lemma fetch_after_start:
  assumes "fst (start_daemon (start io) w) = Returned ()"
  shows "fetch_new_params_from_daemon loads io w = request loads io (snd (start_daemon (start io) w))"
proof (cases "running (sm w)")
  case True
  then have "start_daemon (start io) w = (Returned (), w)" by (simp add: start_daemon_def)
  with True show ?thesis by (simp add: fetch_new_params_from_daemon_def)
next
  case False
  obtain r w1 where s: "start_daemon (start io) w = (r, w1)" by (cases "start_daemon (start io) w")
  with assms have "r = Returned ()" by simp
  with s False show ?thesis by (simp add: fetch_new_params_from_daemon_def)
qed

lemma fetch_start_failed:
  assumes "fst (start_daemon (start io) w) \<noteq> Returned ()"
  shows "(\<exists>e. fst (start_daemon (start io) w) = Raised e \<and>
              fetch_new_params_from_daemon loads io w = (Raised e, snd (start_daemon (start io) w))) \<or>
         (fst (start_daemon (start io) w) = Blocked \<and>
              fetch_new_params_from_daemon loads io w = (Blocked, snd (start_daemon (start io) w)))"
proof -
  have nr: "\<not> running (sm w)"
  proof
    assume "running (sm w)"
    then have "start_daemon (start io) w = (Returned (), w)" by (simp add: start_daemon_def)
    with assms show False by simp
  qed
  obtain r w1 where s: "start_daemon (start io) w = (r, w1)" by (cases "start_daemon (start io) w")
  from start_daemon_not_looping[of "start io" w] s have nl: "r \<noteq> Looping" by simp
  from assms s have "r \<noteq> Returned ()" by simp
  with nl s nr show ?thesis
    by (cases r) (simp_all add: fetch_new_params_from_daemon_def)
qed

lemma emit_keeps:
  "cm (emit as w) = cm w \<and> sm (emit as w) = sm w \<and> trace (emit as w) = trace w @ as"
  by (simp add: emit_def)

lemma teardown_keeps:
  "cm (teardown io w) = cm w \<and>
   warmup_task (sm (teardown io w)) = warmup_task (sm w) \<and>
   is_warming_up (sm (teardown io w)) = is_warming_up (sm w) \<and>
   low_water_mark (sm (teardown io w)) = low_water_mark (sm w) \<and>
   cluster_size (sm (teardown io w)) = cluster_size (sm w)"
  by (simp add: teardown_def set_proc_def emit_def split: option.splits)

text \<open>The states in which the request can end.\<close>

lemma request_world_cases:
  "snd (request loads io w1) \<in>
     (let w2 = emit [WriteLine (''cluster '' @ str_nat (cluster_size (sm w1)) @ [CHR 0x0A])] w1;
          w3 = emit [ReadLine] w2
      in {w2, teardown io w2, w3, teardown io w3, emit [ReadStderr] w3, teardown io (emit [ReadStderr] w3)})"
  by (simp add: request_def Let_def split: option.splits stderr_read.splits)

lemma request_trace:
  "\<exists>more. trace (snd (request loads io w1)) =
       trace w1 @ WriteLine (''cluster '' @ str_nat (cluster_size (sm w1)) @ [CHR 0x0A]) # more"
proof -
  let ?cmd = "WriteLine (''cluster '' @ str_nat (cluster_size (sm w1)) @ [CHR 0x0A])"
  let ?w2 = "emit [?cmd] w1"
  let ?w3 = "emit [ReadLine] ?w2"
  have "\<forall>x \<in> {?w2, teardown io ?w2, ?w3, teardown io ?w3, emit [ReadStderr] ?w3,
                 teardown io (emit [ReadStderr] ?w3)}.
          \<exists>more. trace x = trace w1 @ ?cmd # more"
    by (simp add: teardown_state emit_keeps)
  with request_world_cases[of loads io w1] show ?thesis unfolding Let_def by blast
qed

lemma request_read_failure:
  assumes pr: "proc (sm w1) = Some p"
    and dr: "drain io = None"
    and bad: "(output_line io = [] \<and> stderr io \<noteq> NoEOF) \<or>
              (output_line io \<noteq> [] \<and> CHR ''['' \<notin> set (output_line io))"
  shows "request loads io w1 =
             (Raised (if output_line io = [] \<and> stderr io = Utf8 then RuntimeError else ValueError),
              set_proc None
                (emit ([WriteLine (''cluster '' @ str_nat (cluster_size (sm w1)) @ [CHR 0x0A]), ReadLine] @
                       (if output_line io = [] then [ReadStderr] else []) @
                       (if kill_lookup_error io then [] else [Kill (pid p), Wait (pid p)]))
                   w1))"
  using assms
  by (cases "stderr io") (auto simp: request_def Let_def teardown_def emit_def set_proc_def)

lemma request_blocks:
  assumes dr: "drain io = None" and e: "output_line io = []" and s: "stderr io = NoEOF"
  shows "request loads io w1 =
           (Blocked,
            emit [WriteLine (''cluster '' @ str_nat (cluster_size (sm w1)) @ [CHR 0x0A]), ReadLine, ReadStderr] w1)"
  using assms by (simp add: request_def Let_def emit_def)

lemma start_daemon_spawn:
  assumes nr: "\<not> running (sm w)"
    and ex: "executable_path (sm w) \<noteq> None \<or> (\<exists>path. ensure_executable sio = Inr path)"
    and sp: "spawn sio = Inr n"
  shows "\<exists>w2. trace w2 = trace w @ [Spawn n, ReadLine] \<and>
              proc (sm w2) = Some \<lparr>pid = n, returncode = None\<rparr> \<and> cm w2 = cm w \<and>
              cluster_size (sm w2) = cluster_size (sm w) \<and>
              start_daemon sio w =
                (case ready_signal sio of
                   None \<Rightarrow> (Raised RuntimeError, set_proc None w2)
                 | Some line \<Rightarrow>
                     if py_strip line \<noteq> READY
                     then (case start_stderr sio of
                             NoEOF \<Rightarrow> (Blocked, emit [ReadStderr] w2)
                           | _ \<Rightarrow> (Raised RuntimeError, set_proc None (emit [ReadStderr] w2)))
                     else (Returned (), w2))"
proof -
  from ex obtain path where
    path: "(case executable_path (sm w) of Some path \<Rightarrow> Inr path | None \<Rightarrow> ensure_executable sio) = Inr path"
    by (cases "executable_path (sm w)") auto
  let ?w1 = "w\<lparr>sm := (sm w)\<lparr>executable_path := Some path\<rparr>\<rparr>"
  let ?w2 = "emit [Spawn n, ReadLine] (set_proc (Some \<lparr>pid = n, returncode = None\<rparr>) ?w1)"
  have "start_daemon sio w =
                (case ready_signal sio of
                   None \<Rightarrow> (Raised RuntimeError, set_proc None ?w2)
                 | Some line \<Rightarrow>
                     if py_strip line \<noteq> READY
                     then (case start_stderr sio of
                             NoEOF \<Rightarrow> (Blocked, emit [ReadStderr] ?w2)
                           | _ \<Rightarrow> (Raised RuntimeError, set_proc None (emit [ReadStderr] ?w2)))
                     else (Returned (), ?w2))"
    unfolding start_daemon_def using nr path sp by (simp add: Let_def)
  moreover have "trace ?w2 = trace w @ [Spawn n, ReadLine]"
    "proc (sm ?w2) = Some \<lparr>pid = n, returncode = None\<rparr>" "cm ?w2 = cm w"
    "cluster_size (sm ?w2) = cluster_size (sm w)"
    by (simp_all add: emit_def set_proc_def)
  ultimately show ?thesis by blast
qed

lemma start_daemon_trace:
  assumes nr: "\<not> running (sm w)"
    and ex: "executable_path (sm w) \<noteq> None \<or> (\<exists>path. ensure_executable sio = Inr path)"
    and sp: "spawn sio = Inr n"
  shows "\<exists>rest. trace (snd (start_daemon sio w)) = trace w @ Spawn n # rest"
proof -
  from start_daemon_spawn[OF nr ex sp] obtain w2 where
    w2: "trace w2 = trace w @ [Spawn n, ReadLine]"
    and sd: "snd (start_daemon sio w) \<in> {set_proc None w2, emit [ReadStderr] w2,
               set_proc None (emit [ReadStderr] w2), w2}"
    by (auto split: option.splits stderr_read.splits if_splits)
  have "\<forall>x \<in> {set_proc None w2, emit [ReadStderr] w2, set_proc None (emit [ReadStderr] w2), w2}.
          \<exists>rest. trace x = trace w @ Spawn n # rest"
    by (simp add: w2 set_proc_def emit_def)
  with sd show ?thesis by blast
qed

lemma fetch_restarts:
  assumes nr: "\<not> running (sm w)"
    and ex: "executable_path (sm w) \<noteq> None \<or> (\<exists>path. ensure_executable (start io) = Inr path)"
    and sp: "spawn (start io) = Inr n"
  shows "\<exists>rest. trace (snd (fetch_new_params_from_daemon loads io w)) = trace w @ Spawn n # rest"
proof (cases "fst (start_daemon (start io) w) = Returned ()")
  case True
  from request_trace[of loads io "snd (start_daemon (start io) w)"]
    start_daemon_trace[OF nr ex sp]
  show ?thesis by (auto simp: fetch_after_start[OF True])
next
  case False
  from fetch_start_failed[OF False, of loads]
  have "snd (fetch_new_params_from_daemon loads io w) = snd (start_daemon (start io) w)" by auto
  with start_daemon_trace[OF nr ex sp] show ?thesis by simp
qed

lemma fetch_restart_request:
  assumes nr: "\<not> running (sm w)"
    and ex: "executable_path (sm w) \<noteq> None \<or> (\<exists>path. ensure_executable (start io) = Inr path)"
    and sp: "spawn (start io) = Inr n"
    and ready: "\<exists>line. ready_signal (start io) = Some line \<and> py_strip line = READY"
  shows "\<exists>rest. trace (snd (fetch_new_params_from_daemon loads io w)) =
           trace w @ [Spawn n, ReadLine,
                      WriteLine (''cluster '' @ str_nat (cluster_size (sm w)) @ [CHR 0x0A])] @ rest"
proof -
  from start_daemon_spawn[OF nr ex sp] ready obtain w2 where
    w2: "trace w2 = trace w @ [Spawn n, ReadLine]" "cluster_size (sm w2) = cluster_size (sm w)"
    and sd: "start_daemon (start io) w = (Returned (), w2)"
    by auto
  from sd have ok: "fst (start_daemon (start io) w) = Returned ()" by simp
  from request_trace[of loads io w2] sd w2 show ?thesis
    by (auto simp: fetch_after_start[OF ok])
qed

subsection \<open>What a call does to the outside\<close>

lemma batch_requests_append: "batch_requests (xs @ ys) = batch_requests xs + batch_requests ys"
  by (simp add: batch_requests_def)

lemma tasks_created_append: "tasks_created (xs @ ys) = tasks_created xs + tasks_created ys"
  by (simp add: tasks_created_def)

lemma teardown_counts:
  "batch_requests (trace (teardown io w)) = batch_requests (trace w) \<and>
   tasks_created (trace (teardown io w)) = tasks_created (trace w)"
  by (simp add: teardown_state batch_requests_append tasks_created_append split: option.splits)
     (simp add: batch_requests_def tasks_created_def)

lemma start_daemon_keeps:
  "cm (snd (start_daemon sio w)) = cm w \<and>
   batch_requests (trace (snd (start_daemon sio w))) = batch_requests (trace w) \<and>
   tasks_created (trace (snd (start_daemon sio w))) = tasks_created (trace w) \<and>
   warmup_task (sm (snd (start_daemon sio w))) = warmup_task (sm w) \<and>
   is_warming_up (sm (snd (start_daemon sio w))) = is_warming_up (sm w) \<and>
   low_water_mark (sm (snd (start_daemon sio w))) = low_water_mark (sm w)"
  using start_daemon_cases[where sio=sio and w=w]
  by (elim disjE exE conjE) (simp_all add: set_proc_def emit_def batch_requests_def tasks_created_def)

lemma request_keeps:
  "cm (snd (request loads io w1)) = cm w1 \<and>
   warmup_task (sm (snd (request loads io w1))) = warmup_task (sm w1) \<and>
   is_warming_up (sm (snd (request loads io w1))) = is_warming_up (sm w1) \<and>
   low_water_mark (sm (snd (request loads io w1))) = low_water_mark (sm w1) \<and>
   batch_requests (trace (snd (request loads io w1))) = batch_requests (trace w1) + 1 \<and>
   tasks_created (trace (snd (request loads io w1))) = tasks_created (trace w1)"
proof -
  let ?w2 = "emit [WriteLine (''cluster '' @ str_nat (cluster_size (sm w1)) @ [CHR 0x0A])] w1"
  let ?w3 = "emit [ReadLine] ?w2"
  let ?P = "\<lambda>x. cm x = cm w1 \<and> warmup_task (sm x) = warmup_task (sm w1) \<and>
                 is_warming_up (sm x) = is_warming_up (sm w1) \<and>
                 low_water_mark (sm x) = low_water_mark (sm w1) \<and>
                 batch_requests (trace x) = batch_requests (trace w1) + 1 \<and>
                 tasks_created (trace x) = tasks_created (trace w1)"
  have "\<forall>x \<in> {?w2, teardown io ?w2, ?w3, teardown io ?w3, emit [ReadStderr] ?w3,
                 teardown io (emit [ReadStderr] ?w3)}. ?P x"
    by (simp add: teardown_keeps teardown_counts emit_keeps batch_requests_append tasks_created_append)
       (simp add: batch_requests_def tasks_created_def)
  with request_world_cases[of loads io w1] show ?thesis unfolding Let_def by blast
qed

lemma fetch_world:
  "snd (fetch_new_params_from_daemon loads io w) =
     (if fst (start_daemon (start io) w) = Returned ()
      then snd (request loads io (snd (start_daemon (start io) w)))
      else snd (start_daemon (start io) w))"
proof (cases "fst (start_daemon (start io) w) = Returned ()")
  case True
  then show ?thesis by (simp add: fetch_after_start)
next
  case False
  from fetch_start_failed[OF False, of loads] False show ?thesis by auto
qed

lemma fetch_keeps:
  "cm (snd (fetch_new_params_from_daemon loads io w)) = cm w \<and>
   warmup_task (sm (snd (fetch_new_params_from_daemon loads io w))) = warmup_task (sm w) \<and>
   is_warming_up (sm (snd (fetch_new_params_from_daemon loads io w))) = is_warming_up (sm w) \<and>
   low_water_mark (sm (snd (fetch_new_params_from_daemon loads io w))) = low_water_mark (sm w) \<and>
   tasks_created (trace (snd (fetch_new_params_from_daemon loads io w))) = tasks_created (trace w)"
  by (simp add: fetch_world request_keeps start_daemon_keeps)

lemma fetch_batch_requests:
  "batch_requests (trace (snd (fetch_new_params_from_daemon loads io w))) =
     batch_requests (trace w) + (if fst (start_daemon (start io) w) = Returned () then 1 else 0)"
  by (simp add: fetch_world request_keeps start_daemon_keeps)

lemma request_success:
  assumes "fst (request loads io w1) = Returned ps"
  shows "snd (request loads io w1) =
     emit [ReadLine] (emit [WriteLine (''cluster '' @ str_nat (cluster_size (sm w1)) @ [CHR 0x0A])] w1)"
  using assms
  by (simp add: request_def Let_def split: option.splits if_splits stderr_read.splits)

lemma fetch_success_running:
  assumes "fst (fetch_new_params_from_daemon loads io w) = Returned ps"
  shows "running (sm (snd (fetch_new_params_from_daemon loads io w)))"
proof (cases "fst (start_daemon (start io) w) = Returned ()")
  case True
  from assms have "fst (request loads io (snd (start_daemon (start io) w))) = Returned ps"
    by (simp add: fetch_after_start[OF True])
  from request_success[OF this] start_daemon_running[OF True] show ?thesis
    by (simp add: fetch_after_start[OF True] emit_keeps)
next
  case False
  from fetch_start_failed[OF False, of loads] assms show ?thesis by auto
qed

lemma str_nat_2: "str_nat 2 = ''2''"
proof -
  have "char_of (50::nat) = CHR ''2''" by code_simp
  then show ?thesis by (simp add: str_nat.simps[of 2])
qed

text \<open>
  A batch request whose read fails, with the error stream at its end. Let the request
  reach its read (the daemon runs or has just been started, and the write went through).
  If the line read is empty and the read of the error stream returns, or the line is not
  empty and has no \<open>[\<close>, the call raises (\<open>RuntimeError\<close> for the empty line, or
  \<open>ValueError\<close>), the process is killed and awaited unless it was already gone, and the
  handle is cleared. The next batch request on that state begins by spawning a new
  process and, once that reports \<open>READY\<close>, writes its command line to it.
\<close>

theorem fetch_ipc_failure:
  "fst (start_daemon (start io) w) = Returned () \<and> drain io = None \<and>
   ((output_line io = [] \<and> stderr io \<noteq> NoEOF) \<or>
    (output_line io \<noteq> [] \<and> CHR ''['' \<notin> set (output_line io))) \<longrightarrow>
     (\<exists>p. proc (sm (snd (start_daemon (start io) w))) = Some p \<and> returncode p = None \<and>
           fetch_new_params_from_daemon loads io w =
             (Raised (if output_line io = [] \<and> stderr io = Utf8 then RuntimeError else ValueError),
              set_proc None
                (emit ([WriteLine (''cluster '' @ str_nat (cluster_size (sm (snd (start_daemon (start io) w)))) @ [CHR 0x0A]),
                        ReadLine] @
                       (if output_line io = [] then [ReadStderr] else []) @
                       (if kill_lookup_error io then [] else [Kill (pid p), Wait (pid p)]))
                   (snd (start_daemon (start io) w))))) \<and>
     proc (sm (snd (fetch_new_params_from_daemon loads io w))) = None \<and>
     (\<forall>io2 n. spawn (start io2) = Inr n \<and>
         (executable_path (sm (snd (fetch_new_params_from_daemon loads io w))) \<noteq> None \<or>
          (\<exists>path. ensure_executable (start io2) = Inr path)) \<longrightarrow>
         (\<exists>rest. trace (snd (fetch_new_params_from_daemon loads io2 (snd (fetch_new_params_from_daemon loads io w)))) =
            trace (snd (fetch_new_params_from_daemon loads io w)) @ Spawn n # rest) \<and>
         ((\<exists>line. ready_signal (start io2) = Some line \<and> py_strip line = READY) \<longrightarrow>
           (\<exists>rest. trace (snd (fetch_new_params_from_daemon loads io2 (snd (fetch_new_params_from_daemon loads io w)))) =
              trace (snd (fetch_new_params_from_daemon loads io w)) @
              [Spawn n, ReadLine,
               WriteLine (''cluster '' @ str_nat (cluster_size (sm (snd (fetch_new_params_from_daemon loads io w)))) @ [CHR 0x0A])] @ rest)))"
proof (intro impI)
  assume a: "fst (start_daemon (start io) w) = Returned () \<and> drain io = None \<and>
   ((output_line io = [] \<and> stderr io \<noteq> NoEOF) \<or>
    (output_line io \<noteq> [] \<and> CHR ''['' \<notin> set (output_line io)))"
  let ?w1 = "snd (start_daemon (start io) w)"
  let ?w' = "snd (fetch_new_params_from_daemon loads io w)"
  from a have ok: "fst (start_daemon (start io) w) = Returned ()" by simp
  from start_daemon_running[OF ok] obtain p where p: "proc (sm ?w1) = Some p" "returncode p = None"
    by (auto simp: running_def split: option.splits)
  from a have dr: "drain io = None" and bad: "(output_line io = [] \<and> stderr io \<noteq> NoEOF) \<or>
    (output_line io \<noteq> [] \<and> CHR ''['' \<notin> set (output_line io))" by simp_all
  have f: "fetch_new_params_from_daemon loads io w =
             (Raised (if output_line io = [] \<and> stderr io = Utf8 then RuntimeError else ValueError),
              set_proc None
                (emit ([WriteLine (''cluster '' @ str_nat (cluster_size (sm ?w1)) @ [CHR 0x0A]), ReadLine] @
                       (if output_line io = [] then [ReadStderr] else []) @
                       (if kill_lookup_error io then [] else [Kill (pid p), Wait (pid p)]))
                   ?w1))"
    using request_read_failure[OF p(1) dr bad, of loads] by (simp add: fetch_after_start[OF ok])
  then have 2: "proc (sm ?w') = None" by (simp add: set_proc_def)
  then have nr: "\<not> running (sm ?w')" by (simp add: running_def)
  have 3: "\<forall>io2 n. spawn (start io2) = Inr n \<and>
         (executable_path (sm ?w') \<noteq> None \<or> (\<exists>path. ensure_executable (start io2) = Inr path)) \<longrightarrow>
         (\<exists>rest. trace (snd (fetch_new_params_from_daemon loads io2 ?w')) = trace ?w' @ Spawn n # rest) \<and>
         ((\<exists>line. ready_signal (start io2) = Some line \<and> py_strip line = READY) \<longrightarrow>
           (\<exists>rest. trace (snd (fetch_new_params_from_daemon loads io2 ?w')) =
              trace ?w' @ [Spawn n, ReadLine,
                 WriteLine (''cluster '' @ str_nat (cluster_size (sm ?w')) @ [CHR 0x0A])] @ rest))"
    using fetch_restarts[OF nr] fetch_restart_request[OF nr] by blast
  from p f 2 3 show "(\<exists>p. proc (sm ?w1) = Some p \<and> returncode p = None \<and>
           fetch_new_params_from_daemon loads io w =
             (Raised (if output_line io = [] \<and> stderr io = Utf8 then RuntimeError else ValueError),
              set_proc None
                (emit ([WriteLine (''cluster '' @ str_nat (cluster_size (sm ?w1)) @ [CHR 0x0A]),
                        ReadLine] @
                       (if output_line io = [] then [ReadStderr] else []) @
                       (if kill_lookup_error io then [] else [Kill (pid p), Wait (pid p)]))
                   ?w1))) \<and>
     proc (sm ?w') = None \<and>
     (\<forall>io2 n. spawn (start io2) = Inr n \<and>
         (executable_path (sm ?w') \<noteq> None \<or> (\<exists>path. ensure_executable (start io2) = Inr path)) \<longrightarrow>
         (\<exists>rest. trace (snd (fetch_new_params_from_daemon loads io2 ?w')) = trace ?w' @ Spawn n # rest) \<and>
         ((\<exists>line. ready_signal (start io2) = Some line \<and> py_strip line = READY) \<longrightarrow>
           (\<exists>rest. trace (snd (fetch_new_params_from_daemon loads io2 ?w')) =
              trace ?w' @ [Spawn n, ReadLine,
                 WriteLine (''cluster '' @ str_nat (cluster_size (sm ?w')) @ [CHR 0x0A])] @ rest)))"
    by blast
qed

subsection \<open>Getting a credential\<close>

lemma trigger_warmup_state:
  "cm (trigger_warmup w) = cm w \<and> proc (sm (trigger_warmup w)) = proc (sm w) \<and>
   is_warming_up (sm (trigger_warmup w)) = is_warming_up (sm w) \<and>
   low_water_mark (sm (trigger_warmup w)) = low_water_mark (sm w) \<and>
   pending (sm (trigger_warmup w)) \<and>
   trace (trigger_warmup w) = trace w @ (if pending (sm w) then [] else [CreateTask])"
  by (simp add: trigger_warmup_def pending_def emit_def split: option.splits)

lemma finish_headers_eq:
  "finish_headers io p w =
     (Returned \<lparr>specialencodeparam = p, traceparent = generate_traceparent io\<rparr>,
      if get_available_param_uses_count (cm w) < low_water_mark (sm w) \<and> \<not> is_warming_up (sm w) \<and>
         running (sm w)
      then trigger_warmup w else w)"
  by (simp add: finish_headers_def Let_def)

lemma finish_headers_keeps:
  "cm (snd (finish_headers io p w)) = cm w \<and>
   proc (sm (snd (finish_headers io p w))) = proc (sm w) \<and>
   is_warming_up (sm (snd (finish_headers io p w))) = is_warming_up (sm w) \<and>
   low_water_mark (sm (snd (finish_headers io p w))) = low_water_mark (sm w) \<and>
   batch_requests (trace (snd (finish_headers io p w))) = batch_requests (trace w)"
  by (simp add: finish_headers_eq trigger_warmup_state batch_requests_append)
     (simp add: batch_requests_def)

lemma not_param_iff: "\<not> not_param a \<longleftrightarrow> (\<exists>p. a = Some p \<and> p \<noteq> [])"
  by (cases a) (auto simp: not_param_def)

lemma get_headers_direct:
  assumes "fst (first_allocation io w) = Some p" and "p \<noteq> []"
  shows "get_headers loads io w = finish_headers io p (w\<lparr>cm := snd (first_allocation io w)\<rparr>)"
proof -
  obtain a d1 where a: "get_and_update_available_param (fst (alloc1 io)) (snd (alloc1 io)) (cm w) = (a, d1)"
    by (cases "get_and_update_available_param (fst (alloc1 io)) (snd (alloc1 io)) (cm w)")
  with assms have "a = Some p" by (simp add: first_allocation_def)
  with a assms(2) show ?thesis by (simp add: get_headers_def not_param_def first_allocation_def)
qed

lemma headers_direct:
  assumes "fst (first_allocation io w) = Some p" "p \<noteq> []"
  shows "fst (get_headers loads io w) =
           Returned \<lparr>specialencodeparam = p, traceparent = generate_traceparent io\<rparr> \<and>
      cm (snd (get_headers loads io w)) = snd (first_allocation io w) \<and>
      batch_requests (trace (snd (get_headers loads io w))) = batch_requests (trace w)"
  by (simp add: get_headers_direct[OF assms] finish_headers_keeps) (simp add: finish_headers_eq)

lemma headers_emergency_eq:
  assumes "not_param (fst (first_allocation io w))"
  shows "get_headers loads io w =
     (case fst (emergency_fetch loads io w) of
        Returned new_params \<Rightarrow>
          if new_params = [] then (Raised RuntimeError, snd (emergency_fetch loads io w))
          else if not_param (fst (second_allocation io w new_params))
               then (Raised RuntimeError,
                     (snd (emergency_fetch loads io w))\<lparr>cm := snd (second_allocation io w new_params)\<rparr>)
               else finish_headers io (the (fst (second_allocation io w new_params)))
                     ((snd (emergency_fetch loads io w))\<lparr>cm := snd (second_allocation io w new_params)\<rparr>)
      | Raised e \<Rightarrow> (Raised e, snd (emergency_fetch loads io w))
      | Blocked \<Rightarrow> (Blocked, snd (emergency_fetch loads io w))
      | Looping \<Rightarrow> (Looping, snd (emergency_fetch loads io w)))"
proof -
  obtain a d1 where a: "get_and_update_available_param (fst (alloc1 io)) (snd (alloc1 io)) (cm w) = (a, d1)"
    by (cases "get_and_update_available_param (fst (alloc1 io)) (snd (alloc1 io)) (cm w)")
  with assms have np: "not_param a" by (simp add: first_allocation_def)
  from a have fa: "first_allocation io w = (a, d1)" by (simp add: first_allocation_def)
  obtain r w2 where f: "fetch_new_params_from_daemon loads (fetch io) (w\<lparr>cm := d1\<rparr>) = (r, w2)"
    by (cases "fetch_new_params_from_daemon loads (fetch io) (w\<lparr>cm := d1\<rparr>)")
  then have ef: "emergency_fetch loads io w = (r, w2)" by (simp add: emergency_fetch_def fa)
  have c: "cm w2 = d1" using fetch_keeps[of loads "fetch io" "w\<lparr>cm := d1\<rparr>"] f by simp
  show ?thesis
  proof (cases r)
    case (Returned ps)
    obtain a2 d3 where a2: "get_and_update_available_param (fst (alloc2 io)) (snd (alloc2 io))
                           (add_new_params ps d1) = (a2, d3)"
      by (cases "get_and_update_available_param (fst (alloc2 io)) (snd (alloc2 io)) (add_new_params ps d1)")
    then have sa: "second_allocation io w ps = (a2, d3)" by (simp add: second_allocation_def fa)
    from a np f Returned c a2 have "get_headers loads io w =
        (if ps = [] then (Raised RuntimeError, w2)
         else if not_param a2 then (Raised RuntimeError, w2\<lparr>cm := d3\<rparr>)
         else finish_headers io (the a2) (w2\<lparr>cm := d3\<rparr>))"
      by (simp add: get_headers_def Let_def)
    with ef Returned sa show ?thesis by simp
  qed (use a np f ef in \<open>simp_all add: get_headers_def Let_def\<close>)
qed

lemma emergency_requests:
  "batch_requests (trace (snd (emergency_fetch loads io w))) =
     batch_requests (trace w) +
       (if fst (start_daemon (start (fetch io)) (w\<lparr>cm := snd (first_allocation io w)\<rparr>)) = Returned ()
        then 1 else 0)"
  by (simp add: emergency_fetch_def fetch_batch_requests)

lemma emergency_cm: "cm (snd (emergency_fetch loads io w)) = snd (first_allocation io w)"
  by (simp add: emergency_fetch_def fetch_keeps)

lemma headers_emergency:
  assumes np: "not_param (fst (first_allocation io w))"
  shows "batch_requests (trace (snd (get_headers loads io w))) =
           batch_requests (trace w) +
             (if fst (start_daemon (start (fetch io)) (w\<lparr>cm := snd (first_allocation io w)\<rparr>)) = Returned ()
              then 1 else 0) \<and>
         (\<forall>e. fst (emergency_fetch loads io w) = Raised e \<longrightarrow> fst (get_headers loads io w) = Raised e) \<and>
         (fst (emergency_fetch loads io w) = Blocked \<longrightarrow> fst (get_headers loads io w) = Blocked) \<and>
         (fst (emergency_fetch loads io w) = Returned [] \<longrightarrow>
            fst (get_headers loads io w) = Raised RuntimeError \<and>
            cm (snd (get_headers loads io w)) = snd (first_allocation io w)) \<and>
         (\<forall>ps. fst (emergency_fetch loads io w) = Returned ps \<and> ps \<noteq> [] \<longrightarrow>
            cm (snd (get_headers loads io w)) = snd (second_allocation io w ps) \<and>
            (not_param (fst (second_allocation io w ps)) \<longrightarrow>
               fst (get_headers loads io w) = Raised RuntimeError) \<and>
            (\<forall>p. fst (second_allocation io w ps) = Some p \<and> p \<noteq> [] \<longrightarrow>
               fst (get_headers loads io w) =
                 Returned \<lparr>specialencodeparam = p, traceparent = generate_traceparent io\<rparr>))"
proof (cases "fst (emergency_fetch loads io w)")
  case (Returned ps)
  show ?thesis
  proof (cases "ps = []")
    case True
    with Returned have "get_headers loads io w = (Raised RuntimeError, snd (emergency_fetch loads io w))"
      by (simp add: headers_emergency_eq[OF np])
    with Returned True show ?thesis by (simp add: emergency_requests emergency_cm)
  next
    case ne: False
    show ?thesis
    proof (cases "not_param (fst (second_allocation io w ps))")
      case True
      with Returned ne have "get_headers loads io w = (Raised RuntimeError,
            (snd (emergency_fetch loads io w))\<lparr>cm := snd (second_allocation io w ps)\<rparr>)"
        by (simp add: headers_emergency_eq[OF np])
      with Returned ne True show ?thesis by (auto simp: emergency_requests not_param_def)
    next
      case False
      then obtain p where p: "fst (second_allocation io w ps) = Some p" "p \<noteq> []"
        by (auto simp: not_param_iff)
      with Returned ne False have "get_headers loads io w = finish_headers io p
            ((snd (emergency_fetch loads io w))\<lparr>cm := snd (second_allocation io w ps)\<rparr>)"
        by (simp add: headers_emergency_eq[OF np])
      then have "fst (get_headers loads io w) =
                 Returned \<lparr>specialencodeparam = p, traceparent = generate_traceparent io\<rparr>"
         "cm (snd (get_headers loads io w)) = snd (second_allocation io w ps)"
         "batch_requests (trace (snd (get_headers loads io w))) =
            batch_requests (trace (snd (emergency_fetch loads io w)))"
        by (simp_all add: finish_headers_keeps) (simp add: finish_headers_eq)
      with Returned ne False p show ?thesis by (simp add: emergency_requests)
    qed
  qed
next
  case (Raised e)
  then have "get_headers loads io w = (Raised e, snd (emergency_fetch loads io w))"
    by (simp add: headers_emergency_eq[OF np])
  with Raised show ?thesis by (simp add: emergency_requests)
next
  case Blocked
  then have "get_headers loads io w = (Blocked, snd (emergency_fetch loads io w))"
    by (simp add: headers_emergency_eq[OF np])
  with Blocked show ?thesis by (simp add: emergency_requests)
next
  case Looping
  then have "get_headers loads io w = (Looping, snd (emergency_fetch loads io w))"
    by (simp add: headers_emergency_eq[OF np])
  with Looping show ?thesis by (simp add: emergency_requests)
qed

lemma headers_success_form:
  assumes "fst (get_headers loads io w) = Returned h"
  shows "\<exists>p wpre. p \<noteq> [] \<and> get_headers loads io w = finish_headers io p wpre \<and>
            warmup_task (sm wpre) = warmup_task (sm w) \<and>
            tasks_created (trace wpre) = tasks_created (trace w)"
proof (cases "not_param (fst (first_allocation io w))")
  case False
  then obtain p where p: "fst (first_allocation io w) = Some p" "p \<noteq> []"
    by (auto simp: not_param_iff)
  from get_headers_direct[OF p, of loads] p(2) show ?thesis
    by (intro exI[of _ p] exI[of _ "w\<lparr>cm := snd (first_allocation io w)\<rparr>"]) simp
next
  case np: True
  let ?f = "emergency_fetch loads io w"
  have k: "warmup_task (sm (snd ?f)) = warmup_task (sm w)"
      "tasks_created (trace (snd ?f)) = tasks_created (trace w)"
    by (simp_all add: emergency_fetch_def fetch_keeps)
  note eq = headers_emergency_eq[OF np, of loads]
  show ?thesis
  proof (cases "fst ?f")
    case (Returned ps)
    show ?thesis
    proof (cases "ps = [] \<or> not_param (fst (second_allocation io w ps))")
      case True
      with Returned eq assms show ?thesis by auto
    next
      case False
      then obtain p where p: "fst (second_allocation io w ps) = Some p" "p \<noteq> []"
        by (auto simp: not_param_iff)
      with False Returned eq have "get_headers loads io w =
          finish_headers io p ((snd ?f)\<lparr>cm := snd (second_allocation io w ps)\<rparr>)"
        by simp
      with k p(2) show ?thesis
        by (intro exI[of _ p] exI[of _ "(snd ?f)\<lparr>cm := snd (second_allocation io w ps)\<rparr>"]) simp
    qed
  qed (use eq assms in simp_all)
qed

lemma headers_success_nonempty:
  assumes "fst (get_headers loads io w) = Returned h"
  shows "specialencodeparam h \<noteq> []"
proof -
  from headers_success_form[OF assms] obtain p wpre where
    "p \<noteq> []" "get_headers loads io w = finish_headers io p wpre" by blast
  with assms show ?thesis by (auto simp: finish_headers_eq)
qed

lemma headers_trigger:
  assumes ok: "fst (get_headers loads io w) = Returned h"
  shows "(get_available_param_uses_count (cm (snd (get_headers loads io w)))
            < low_water_mark (sm (snd (get_headers loads io w))) \<and>
          \<not> is_warming_up (sm (snd (get_headers loads io w))) \<and>
          running (sm (snd (get_headers loads io w))) \<longrightarrow>
            pending (sm (snd (get_headers loads io w))) \<and>
            tasks_created (trace (snd (get_headers loads io w))) =
              tasks_created (trace w) + (if pending (sm w) then 0 else 1)) \<and>
         (\<not> (get_available_param_uses_count (cm (snd (get_headers loads io w)))
            < low_water_mark (sm (snd (get_headers loads io w))) \<and>
          \<not> is_warming_up (sm (snd (get_headers loads io w))) \<and>
          running (sm (snd (get_headers loads io w)))) \<longrightarrow>
            warmup_task (sm (snd (get_headers loads io w))) = warmup_task (sm w) \<and>
            tasks_created (trace (snd (get_headers loads io w))) = tasks_created (trace w))"
proof -
  from headers_success_form[OF ok] obtain p wpre where
    g: "get_headers loads io w = finish_headers io p wpre"
    and t: "warmup_task (sm wpre) = warmup_task (sm w)"
    and c: "tasks_created (trace wpre) = tasks_created (trace w)"
    by blast
  let ?cond = "get_available_param_uses_count (cm wpre) < low_water_mark (sm wpre) \<and>
               \<not> is_warming_up (sm wpre) \<and> running (sm wpre)"
  have s: "snd (get_headers loads io w) = (if ?cond then trigger_warmup wpre else wpre)"
    by (simp add: g finish_headers_eq)
  have pe: "pending (sm wpre) = pending (sm w)" by (simp add: pending_def t)
  show ?thesis
  proof (cases ?cond)
    case True
    then have "(if ?cond then trigger_warmup wpre else wpre) = trigger_warmup wpre" by (rule if_P)
    with s have w': "snd (get_headers loads io w) = trigger_warmup wpre" by (rule trans)
    have "running (sm (trigger_warmup wpre)) = running (sm wpre)"
      by (simp add: running_def trigger_warmup_state)
    with True show ?thesis
      by (simp add: w' trigger_warmup_state tasks_created_append c pe) (simp add: tasks_created_def)
  next
    case False
    then have "(if ?cond then trigger_warmup wpre else wpre) = wpre" by (rule if_not_P)
    with s have w': "snd (get_headers loads io w) = wpre" by (rule trans)
    with False t c show ?thesis by auto
  qed
qed

subsection \<open>Runs on the example states\<close>

lemmas run_defs =
  get_headers_def finish_headers_def trigger_warmup_def generate_traceparent_def not_param_def
  fetch_new_params_from_daemon_def request_def start_daemon_def teardown_def caught_by_fetch_def
  running_def emit_def set_proc_def str_nat_2
  loads_string_array_def squeeze_def json_ws_def plain_string_def batch_line_def
  py_strip_def py_isspace_def READY_def
  get_and_update_available_param_def select_first_def mark_used_def py_int_def less_eq_prod_def
  add_new_params_def insert_or_ignore_def get_available_param_uses_count_def
  PARAM_REUSE_COOLDOWN_SECONDS_def initialize_def Let_def
  manager0_def world0_def start_ok_def io_closed_def io_stderr_open_def io_broken_pipe_def io_batch_def

lemma loads_batch_line:
  "loads_string_array (dropWhile (\<lambda>c. c \<noteq> CHR ''['') batch_line) = Some [''p1'', ''p2'']"
  by (simp add: loads_string_array_def squeeze_def json_ws_def plain_string_def batch_line_def)


lemma run_world0:
  "get_headers loads_string_array hio world0 =
     (Returned \<lparr>specialencodeparam = ''p1'',
           traceparent = ''00-0af7651916cd43dd8448eb211c80319c-b7ad6b7169203331-01''\<rparr>,
      \<lparr>cm = \<lparr>api_cache = Map.empty,
              param_pool = [\<lparr>param = ''p1'', use_count = 1, last_used_timestamp = 101\<rparr>,
                            \<lparr>param = ''p2'', use_count = 0, last_used_timestamp = 0\<rparr>]\<rparr>,
       sm = manager0\<lparr>warmup_task := Some \<lparr>is_done = False\<rparr>\<rparr>,
       trace = [WriteLine (''cluster 2'' @ [CHR 0x0A]), ReadLine, CreateTask]\<rparr>)"
  by (simp add: run_defs hio_def)

lemma run_low:
  "get_headers loads hio world_low =
     (Returned \<lparr>specialencodeparam = ''A'',
           traceparent = ''00-0af7651916cd43dd8448eb211c80319c-b7ad6b7169203331-01''\<rparr>,
      \<lparr>cm = \<lparr>api_cache = Map.empty,
              param_pool = [\<lparr>param = ''A'', use_count = 1, last_used_timestamp = 100\<rparr>]\<rparr>,
       sm = manager0\<lparr>warmup_task := Some \<lparr>is_done = False\<rparr>\<rparr>,
       trace = [CreateTask]\<rparr>)"
  by (simp add: run_defs hio_def world_low_def)

lemma run_idle:
  "get_headers loads hio world_idle =
     (Returned \<lparr>specialencodeparam = ''A'',
           traceparent = ''00-0af7651916cd43dd8448eb211c80319c-b7ad6b7169203331-01''\<rparr>,
      \<lparr>cm = \<lparr>api_cache = Map.empty,
              param_pool = [\<lparr>param = ''A'', use_count = 1, last_used_timestamp = 100\<rparr>]\<rparr>,
       sm = manager0\<lparr>proc := None\<rparr>,
       trace = []\<rparr>)"
  by (simp add: run_defs hio_def world_idle_def)

lemma run_warm_up_broken_pipe:
  "warm_up_pool loads [io_broken_pipe, io_batch] world0 =
     (Raised BrokenPipeError,
      \<lparr>cm = initialize, sm = manager0\<lparr>proc := None\<rparr>,
       trace = [WriteLine (''cluster 2'' @ [CHR 0x0A]), Kill 7, Wait 7]\<rparr>)"
  by (simp add: run_defs warm_up_pool_def set_warming_def add_task_def advance_def)

lemma run_warm_up_closed:
  "warm_up_pool loads_string_array [io_closed, io_batch] world0 =
     (Looping,
      \<lparr>cm = \<lparr>api_cache = Map.empty,
              param_pool = [\<lparr>param = ''p1'', use_count = 0, last_used_timestamp = 0\<rparr>,
                            \<lparr>param = ''p2'', use_count = 0, last_used_timestamp = 0\<rparr>]\<rparr>,
       sm = manager0\<lparr>proc := Some \<lparr>pid = 8, returncode = None\<rparr>, is_warming_up := True\<rparr>,
       trace = [WriteLine (''cluster 2'' @ [CHR 0x0A]), ReadLine, ReadStderr, Kill 7, Wait 7, Sleep 5,
                Spawn 8, ReadLine, WriteLine (''cluster 2'' @ [CHR 0x0A]), ReadLine]\<rparr>)"
  by (simp add: run_defs warm_up_pool_def set_warming_def add_task_def advance_def)

lemma run_fetch_closed:
  "fetch_new_params_from_daemon loads io_closed world0 =
     (Raised RuntimeError,
      world0\<lparr>sm := manager0\<lparr>proc := None\<rparr>,
             trace := [WriteLine (''cluster 2'' @ [CHR 0x0A]), ReadLine, ReadStderr, Kill 7, Wait 7]\<rparr>)"
  by (simp add: run_defs)

lemma run_fetch_stderr_open:
  "fetch_new_params_from_daemon loads io_stderr_open world0 =
     (Blocked,
      world0\<lparr>trace := [WriteLine (''cluster 2'' @ [CHR 0x0A]), ReadLine, ReadStderr]\<rparr>)"
  by (simp add: run_defs)

theorem fetch_ipc_failure_witness:
  "fst (start_daemon (start io_closed) world0) = Returned () \<and> drain io_closed = None \<and>
   output_line io_closed = [] \<and> stderr io_closed = Utf8 \<and>
   fst (fetch_new_params_from_daemon loads_string_array io_closed world0) = Raised RuntimeError \<and>
   proc (sm (snd (fetch_new_params_from_daemon loads_string_array io_closed world0))) = None \<and>
   trace (snd (fetch_new_params_from_daemon loads_string_array io_closed world0)) =
     [WriteLine (''cluster 2'' @ [CHR 0x0A]), ReadLine, ReadStderr, Kill 7, Wait 7] \<and>
   (\<exists>rest. trace (snd (fetch_new_params_from_daemon loads_string_array io_batch
                        (snd (fetch_new_params_from_daemon loads_string_array io_closed world0)))) =
      [WriteLine (''cluster 2'' @ [CHR 0x0A]), ReadLine, ReadStderr, Kill 7, Wait 7] @
      [Spawn 8, ReadLine, WriteLine (''cluster 2'' @ [CHR 0x0A])] @ rest)"
proof -
  let ?w' = "snd (fetch_new_params_from_daemon loads_string_array io_closed world0)"
  have h: "fst (start_daemon (start io_closed) world0) = Returned () \<and> drain io_closed = None \<and>
   ((output_line io_closed = [] \<and> stderr io_closed \<noteq> NoEOF) \<or>
    (output_line io_closed \<noteq> [] \<and> CHR ''['' \<notin> set (output_line io_closed)))"
    by (simp add: start_daemon_def world0_def manager0_def running_def io_closed_def)
  note th = fetch_ipc_failure[of io_closed world0 loads_string_array, THEN mp, OF h]
  from th have p: "proc (sm ?w') = None" by blast
  have s: "spawn (start io_batch) = Inr 8 \<and>
         (executable_path (sm ?w') \<noteq> None \<or> (\<exists>path. ensure_executable (start io_batch) = Inr path))"
    by (simp add: io_batch_def start_ok_def)
  have rd: "\<exists>line. ready_signal (start io_batch) = Some line \<and> py_strip line = READY"
    by (simp add: io_batch_def start_ok_def py_strip_def py_isspace_def READY_def)
  have cs: "cluster_size (sm ?w') = 2" by (simp add: run_fetch_closed manager0_def)
  from th s rd have "\<exists>rest. trace (snd (fetch_new_params_from_daemon loads_string_array io_batch ?w')) =
            trace ?w' @ [Spawn 8, ReadLine,
               WriteLine (''cluster '' @ str_nat (cluster_size (sm ?w')) @ [CHR 0x0A])] @ rest"
    by blast
  then have r: "\<exists>rest. trace (snd (fetch_new_params_from_daemon loads_string_array io_batch ?w')) =
            trace ?w' @ [Spawn 8, ReadLine, WriteLine (''cluster 2'' @ [CHR 0x0A])] @ rest"
    by (simp add: cs str_nat_2)
  have t: "trace ?w' = [WriteLine (''cluster 2'' @ [CHR 0x0A]), ReadLine, ReadStderr, Kill 7, Wait 7]"
    by (simp add: run_fetch_closed)
  have f: "fst (fetch_new_params_from_daemon loads_string_array io_closed world0) = Raised RuntimeError"
    by (simp add: run_fetch_closed)
  have o: "output_line io_closed = []" "stderr io_closed = Utf8" by (simp_all add: io_closed_def)
  from h o f p t r show ?thesis by simp
qed

text \<open>
  Claim C10 at a failing input. The daemon runs, the write of the batch request goes
  through and the read returns an empty line, but the daemon has not closed its error
  stream: \<open>await self._proc.stderr.read()\<close> reads to the end of that stream and does not
  return. The call raises nothing, the process is neither killed nor awaited, and the
  handle still holds the running process, whatever the parser is. (With the error stream
  at its end the same request raises, tears the process down and clears the handle, as
  \<open>fetch_ipc_failure\<close> states.)
\<close>

theorem fetch_blocks_on_open_error_stream:
  "running (sm world0) \<and> drain io_stderr_open = None \<and> output_line io_stderr_open = [] \<and>
   stderr io_stderr_open = NoEOF \<and>
   fst (fetch_new_params_from_daemon loads io_stderr_open world0) = Blocked \<and>
   proc (sm (snd (fetch_new_params_from_daemon loads io_stderr_open world0))) =
     Some \<lparr>pid = 7, returncode = None\<rparr> \<and>
   trace (snd (fetch_new_params_from_daemon loads io_stderr_open world0)) =
     [WriteLine (''cluster 2'' @ [CHR 0x0A]), ReadLine, ReadStderr]"
  by (simp add: run_fetch_stderr_open)
     (simp add: world0_def manager0_def running_def io_stderr_open_def)

text \<open>
  The paths of \<open>get_headers\<close>. When the first allocation returns a non-empty parameter,
  \<open>get_headers\<close> returns it and writes nothing to the daemon. When it returns nothing
  or the empty string, exactly one command line is written (none if the daemon cannot be
  started), an error of the fetch is raised as it is, a fetch that blocks blocks the
  call, an empty batch raises \<open>RuntimeError\<close>, and otherwise the batch is inserted and
  one more allocation is made: its non-empty result is returned, anything else raises
  \<open>RuntimeError\<close>. A successful call always carries a non-empty parameter.
\<close>

theorem get_headers_credential:
  "(\<forall>p. fst (first_allocation io w) = Some p \<and> p \<noteq> [] \<longrightarrow>
      fst (get_headers loads io w) =
        Returned \<lparr>specialencodeparam = p, traceparent = generate_traceparent io\<rparr> \<and>
      cm (snd (get_headers loads io w)) = snd (first_allocation io w) \<and>
      batch_requests (trace (snd (get_headers loads io w))) = batch_requests (trace w)) \<and>
   (not_param (fst (first_allocation io w)) \<longrightarrow>
      batch_requests (trace (snd (get_headers loads io w))) =
        batch_requests (trace w) +
          (if fst (start_daemon (start (fetch io)) (w\<lparr>cm := snd (first_allocation io w)\<rparr>)) = Returned ()
           then 1 else 0) \<and>
      (\<forall>e. fst (emergency_fetch loads io w) = Raised e \<longrightarrow> fst (get_headers loads io w) = Raised e) \<and>
      (fst (emergency_fetch loads io w) = Blocked \<longrightarrow> fst (get_headers loads io w) = Blocked) \<and>
      (fst (emergency_fetch loads io w) = Returned [] \<longrightarrow>
         fst (get_headers loads io w) = Raised RuntimeError \<and>
         cm (snd (get_headers loads io w)) = snd (first_allocation io w)) \<and>
      (\<forall>ps. fst (emergency_fetch loads io w) = Returned ps \<and> ps \<noteq> [] \<longrightarrow>
         cm (snd (get_headers loads io w)) = snd (second_allocation io w ps) \<and>
         (not_param (fst (second_allocation io w ps)) \<longrightarrow>
            fst (get_headers loads io w) = Raised RuntimeError) \<and>
         (\<forall>p. fst (second_allocation io w ps) = Some p \<and> p \<noteq> [] \<longrightarrow>
            fst (get_headers loads io w) =
              Returned \<lparr>specialencodeparam = p, traceparent = generate_traceparent io\<rparr>))) \<and>
   (\<forall>h. fst (get_headers loads io w) = Returned h \<longrightarrow> specialencodeparam h \<noteq> [])"
proof (intro conjI allI impI)
  fix p assume "fst (first_allocation io w) = Some p \<and> p \<noteq> []"
  then have p: "fst (first_allocation io w) = Some p" "p \<noteq> []" by simp_all
  from headers_direct[OF p, of loads]
  show "fst (get_headers loads io w) =
        Returned \<lparr>specialencodeparam = p, traceparent = generate_traceparent io\<rparr>"
    and "cm (snd (get_headers loads io w)) = snd (first_allocation io w)"
    and "batch_requests (trace (snd (get_headers loads io w))) = batch_requests (trace w)"
    by simp_all
next
  assume np: "not_param (fst (first_allocation io w))"
  note e = headers_emergency[OF np, of loads]
  from e show "batch_requests (trace (snd (get_headers loads io w))) =
        batch_requests (trace w) +
          (if fst (start_daemon (start (fetch io)) (w\<lparr>cm := snd (first_allocation io w)\<rparr>)) = Returned ()
           then 1 else 0)"
    by blast
  { fix e' assume "fst (emergency_fetch loads io w) = Raised e'"
    with e show "fst (get_headers loads io w) = Raised e'" by blast }
  { assume "fst (emergency_fetch loads io w) = Blocked"
    with e show "fst (get_headers loads io w) = Blocked" by blast }
  { assume a: "fst (emergency_fetch loads io w) = Returned []"
    with e show "fst (get_headers loads io w) = Raised RuntimeError" by blast
    from a e show "cm (snd (get_headers loads io w)) = snd (first_allocation io w)" by blast }
  { fix ps assume a: "fst (emergency_fetch loads io w) = Returned ps \<and> ps \<noteq> []"
    with e show "cm (snd (get_headers loads io w)) = snd (second_allocation io w ps)" by blast
    { assume "not_param (fst (second_allocation io w ps))"
      with a e show "fst (get_headers loads io w) = Raised RuntimeError" by blast }
    { fix p assume "fst (second_allocation io w ps) = Some p \<and> p \<noteq> []"
      with a e show "fst (get_headers loads io w) =
              Returned \<lparr>specialencodeparam = p, traceparent = generate_traceparent io\<rparr>" by blast } }
next
  fix h assume "fst (get_headers loads io w) = Returned h"
  then show "specialencodeparam h \<noteq> []" by (rule headers_success_nonempty)
qed

theorem get_headers_credential_witness:
  "not_param (fst (first_allocation hio world0)) \<and>
   fst (emergency_fetch loads_string_array hio world0) = Returned [''p1'', ''p2''] \<and>
   fst (second_allocation hio world0 [''p1'', ''p2'']) = Some ''p1'' \<and>
   fst (get_headers loads_string_array hio world0) =
     Returned \<lparr>specialencodeparam = ''p1'', traceparent = generate_traceparent hio\<rparr> \<and>
   batch_requests (trace (snd (get_headers loads_string_array hio world0))) = 1"
proof -
  have np: "not_param (fst (first_allocation hio world0))"
    by (simp add: first_allocation_def run_defs hio_def)
  have ef: "fst (emergency_fetch loads_string_array hio world0) = Returned [''p1'', ''p2'']"
    by (simp add: emergency_fetch_def first_allocation_def run_defs hio_def)
  have sa: "fst (second_allocation hio world0 [''p1'', ''p2'']) = Some ''p1''"
    by (simp add: second_allocation_def first_allocation_def run_defs hio_def)
  have st: "fst (start_daemon (start (fetch hio)) (world0\<lparr>cm := snd (first_allocation hio world0)\<rparr>)) = Returned ()"
    by (simp add: start_daemon_def running_def world0_def manager0_def)
  have b0: "batch_requests (trace world0) = 0" by (simp add: batch_requests_def world0_def)
  note th = get_headers_credential[of hio world0 loads_string_array, THEN conjunct2, THEN conjunct1, THEN mp, OF np]
  from th st b0 have 1: "batch_requests (trace (snd (get_headers loads_string_array hio world0))) = 1"
    by simp
  from th ef sa have 2: "fst (get_headers loads_string_array hio world0) =
     Returned \<lparr>specialencodeparam = ''p1'', traceparent = generate_traceparent hio\<rparr>"
    by auto
  from np ef sa 1 2 show ?thesis by blast
qed


text \<open>
  Claim C9, as the code has it. After a successful call, if the count of available uses
  is below the low-water mark, the manager is not warming up and the daemon is running,
  a warm-up task is pending: a new one is created unless one was pending already. The
  task is only created, the call itself does not run it. In every other case the task
  reference is left as it was and no task is created.
\<close>

theorem get_headers_triggers_warmup:
  "fst (get_headers loads io w) = Returned h \<longrightarrow>
     (get_available_param_uses_count (cm (snd (get_headers loads io w)))
            < low_water_mark (sm (snd (get_headers loads io w))) \<and>
          \<not> is_warming_up (sm (snd (get_headers loads io w))) \<and>
          running (sm (snd (get_headers loads io w))) \<longrightarrow>
            pending (sm (snd (get_headers loads io w))) \<and>
            tasks_created (trace (snd (get_headers loads io w))) =
              tasks_created (trace w) + (if pending (sm w) then 0 else 1)) \<and>
     (\<not> (get_available_param_uses_count (cm (snd (get_headers loads io w)))
            < low_water_mark (sm (snd (get_headers loads io w))) \<and>
          \<not> is_warming_up (sm (snd (get_headers loads io w))) \<and>
          running (sm (snd (get_headers loads io w)))) \<longrightarrow>
            warmup_task (sm (snd (get_headers loads io w))) = warmup_task (sm w) \<and>
            tasks_created (trace (snd (get_headers loads io w))) = tasks_created (trace w))"
  using headers_trigger[of loads io w h] by blast

theorem get_headers_triggers_warmup_witness:
  "fst (get_headers loads_string_array hio world_low) =
     Returned \<lparr>specialencodeparam = ''A'',
          traceparent = ''00-0af7651916cd43dd8448eb211c80319c-b7ad6b7169203331-01''\<rparr> \<and>
   get_available_param_uses_count (cm (snd (get_headers loads_string_array hio world_low)))
      < low_water_mark (sm (snd (get_headers loads_string_array hio world_low))) \<and>
   \<not> is_warming_up (sm (snd (get_headers loads_string_array hio world_low))) \<and>
   running (sm (snd (get_headers loads_string_array hio world_low))) \<and>
   \<not> pending (sm world_low) \<and>
   pending (sm (snd (get_headers loads_string_array hio world_low))) \<and>
   tasks_created (trace (snd (get_headers loads_string_array hio world_low))) = 1"
proof -
  let ?w' = "snd (get_headers loads_string_array hio world_low)"
  have ok: "fst (get_headers loads_string_array hio world_low) =
     Returned \<lparr>specialencodeparam = ''A'',
          traceparent = ''00-0af7651916cd43dd8448eb211c80319c-b7ad6b7169203331-01''\<rparr>"
    by (simp add: run_low)
  have c: "get_available_param_uses_count (cm ?w') < low_water_mark (sm ?w') \<and>
           \<not> is_warming_up (sm ?w') \<and> running (sm ?w')"
    by (simp add: run_low get_available_param_uses_count_def manager0_def running_def)
  have b: "\<not> pending (sm world_low)" "tasks_created (trace world_low) = 0"
    by (simp_all add: world_low_def manager0_def pending_def tasks_created_def)
  from get_headers_triggers_warmup[of loads_string_array hio world_low, THEN mp, OF ok, THEN conjunct1, THEN mp, OF c] b
  have "pending (sm ?w') \<and> tasks_created (trace ?w') = 1" by simp
  with ok c b show ?thesis by blast
qed

text \<open>
  The claim C9 as stated has no condition on the daemon. With the daemon not running, a
  successful call on a pool below the low-water mark, with no warm-up in flight, creates
  no task.
\<close>

theorem get_headers_triggers_warmup_counterexample:
  "fst (get_headers loads_string_array hio world_idle) =
     Returned \<lparr>specialencodeparam = ''A'',
          traceparent = ''00-0af7651916cd43dd8448eb211c80319c-b7ad6b7169203331-01''\<rparr> \<and>
   get_available_param_uses_count (cm (snd (get_headers loads_string_array hio world_idle)))
      < low_water_mark (sm (snd (get_headers loads_string_array hio world_idle))) \<and>
   \<not> is_warming_up (sm world_idle) \<and>
   \<not> is_warming_up (sm (snd (get_headers loads_string_array hio world_idle))) \<and>
   \<not> pending (sm world_idle) \<and>
   warmup_task (sm (snd (get_headers loads_string_array hio world_idle))) = None \<and>
   tasks_created (trace (snd (get_headers loads_string_array hio world_idle))) = 0"
proof -
  have a: "\<not> is_warming_up (sm world_idle) \<and> \<not> pending (sm world_idle)"
    by (simp add: world_idle_def manager0_def pending_def)
  have b: "get_available_param_uses_count (cm (snd (get_headers loads_string_array hio world_idle)))
      < low_water_mark (sm (snd (get_headers loads_string_array hio world_idle))) \<and>
   \<not> is_warming_up (sm (snd (get_headers loads_string_array hio world_idle))) \<and>
   warmup_task (sm (snd (get_headers loads_string_array hio world_idle))) = None \<and>
   tasks_created (trace (snd (get_headers loads_string_array hio world_idle))) = 0"
    unfolding run_idle
    by (simp add: get_available_param_uses_count_def manager0_def tasks_created_def)
  from a b show ?thesis by (simp add: run_idle)
qed

text \<open>
  Claim C8 at a failing input. The daemon runs, the pool is empty and the write of the
  first batch request fails with \<open>BrokenPipeError\<close>: the fetch tears the process down
  and raises the error again, the \<open>except\<close> clause of the loop does not name it, and
  \<open>warm_up_pool\<close> ends with the error, without a sleep and without a second request,
  whatever the parser is. For comparison, a closed stream (\<open>RuntimeError\<close>) is followed
  by the sleep of 5 seconds and a new request on a restarted daemon.
\<close>

theorem warm_up_broken_pipe_escapes:
  "\<not> is_warming_up (sm world0) \<and> running (sm world0) \<and>
   drain io_broken_pipe = Some BrokenPipeError \<and>
   fst (warm_up_pool loads [io_broken_pipe, io_batch] world0) = Raised BrokenPipeError \<and>
   trace (snd (warm_up_pool loads [io_broken_pipe, io_batch] world0)) =
     [WriteLine (''cluster 2'' @ [CHR 0x0A]), Kill 7, Wait 7] \<and>
   fst (warm_up_pool loads_string_array [io_closed, io_batch] world0) = Looping \<and>
   trace (snd (warm_up_pool loads_string_array [io_closed, io_batch] world0)) =
     [WriteLine (''cluster 2'' @ [CHR 0x0A]), ReadLine, ReadStderr, Kill 7, Wait 7, Sleep 5,
      Spawn 8, ReadLine, WriteLine (''cluster 2'' @ [CHR 0x0A]), ReadLine]"
  by (simp add: run_warm_up_broken_pipe run_warm_up_closed)
     (simp add: world0_def manager0_def running_def io_broken_pipe_def)

end
